theory Spec2Isabelle
  imports Main "HOL-Library.AList" "HOL-Library.Sublist"
begin

section \<open>Strings\<close>

text \<open>
  A JavaScript string is modelled as a \<^typ>\<open>string\<close>: a list of characters, each read as
  one code unit in the range U+0000 .. U+00FF. Code units above U+00FF are outside the model.
\<close>

text \<open>
  \<^verbatim>\<open>String.prototype.trim\<close> strips white space and line terminators from both ends. In
  the modelled range these are TAB, LF, VT, FF, CR, SPACE and NBSP (U+00A0).
\<close>

definition isSpace :: "char \<Rightarrow> bool" where
  "isSpace c = (of_char c \<in> {9, 10, 11, 12, 13, 32, 160 :: nat})"

definition trim :: "string \<Rightarrow> string" where
  "trim s = rev (dropWhile isSpace (rev (dropWhile isSpace s)))"

text \<open>
  \<^verbatim>\<open>String.prototype.split(sep)\<close> with a string separator: the empty separator cuts
  between every two code units (and gives no piece at all for the empty string); any other
  separator cuts at each of its occurrences, found from left to right without overlap.
  \<open>splitAux sep acc s\<close> scans \<open>s\<close> with the piece read so far, reversed, in \<open>acc\<close>.
\<close>

function splitAux :: "string \<Rightarrow> string \<Rightarrow> string \<Rightarrow> string list" where
  "splitAux sep acc [] = [rev acc]"
| "splitAux sep acc (c # cs) =
     (if sep \<noteq> [] \<and> prefix sep (c # cs)
      then rev acc # splitAux sep [] (drop (length sep) (c # cs))
      else splitAux sep (c # acc) cs)"
  by pat_completeness auto
termination
  by (relation "measure (\<lambda>(sep, acc, s). length s)") (auto simp: neq_Nil_conv)

definition jsSplit :: "string \<Rightarrow> string \<Rightarrow> string list" where
  "jsSplit s sep = (if sep = [] then map (\<lambda>c. [c]) s else splitAux sep [] s)"

text \<open>\<^verbatim>\<open>Array.prototype.join(sep)\<close> on an array of strings.\<close>

fun jsJoin :: "string list \<Rightarrow> string \<Rightarrow> string" where
  "jsJoin [] sep = []"
| "jsJoin [x] sep = x"
| "jsJoin (x # y # ys) sep = x @ sep @ jsJoin (y # ys) sep"

section \<open>path-utils: split and join\<close>

text \<open>
  \<^verbatim>\<open>function split(value, delim = ":") {
    return value ? value.split(delim).map((s) => s.trim()) : [];
  }
  function join(segments, delim = ":") {
    return segments.filter(Boolean).join(delim);
  }\<close>
  A string is falsy exactly when it is empty.
\<close>

definition split :: "string \<Rightarrow> string \<Rightarrow> string list" where
  "split value delim = (if value \<noteq> [] then map trim (jsSplit value delim) else [])"

definition join :: "string list \<Rightarrow> string \<Rightarrow> string" where
  "join segments delim = jsJoin (filter (\<lambda>s. s \<noteq> []) segments) delim"

section \<open>Scopes, errors and the process environment\<close>

text \<open>
  The scope option is one of the strings \<^verbatim>\<open>"session"\<close>, \<^verbatim>\<open>"user"\<close>, \<^verbatim>\<open>"system"\<close>
  (the JSDoc type of every adapter function).
\<close>

datatype scope = Session | User | System

fun scopeName :: "scope \<Rightarrow> string" where
  "scopeName Session = ''session''"
| "scopeName User = ''user''"
| "scopeName System = ''system''"

text \<open>
  A rejected promise is a value: \<open>Error msg\<close> is \<^verbatim>\<open>new Error(msg)\<close> thrown by the
  adapter itself, \<open>IOError path\<close> a rejection of a \<^verbatim>\<open>node:fs\<close> call on \<open>path\<close>, and
  \<open>SyntaxError src\<close> the rejection of \<^verbatim>\<open>new RegExp(src)\<close>, and \<open>TypeError msg\<close> the
  \<^verbatim>\<open>TypeError\<close> that the engine raises when what is called is not a function.
\<close>

datatype error = Error string | IOError string | SyntaxError string | TypeError string

text \<open>
  The variables of \<^verbatim>\<open>process.env\<close> are a finite map from names to strings. On Windows the
  keys of the map are the upper-case names (the adapter upper-cases every name before it
  touches \<^verbatim>\<open>process.env\<close>).
\<close>

type_synonym env = "string \<rightharpoonup> string"

text \<open>
  What a property access \<^verbatim>\<open>process.env[name]\<close> or \<^verbatim>\<open>byScope[scope]\<close> can yield besides
  a string: \<^verbatim>\<open>undefined\<close>, or a member that the object inherits from
  \<^verbatim>\<open>Object.prototype\<close>, which is a built-in function, known by its name, or (through the
  accessor \<^verbatim>\<open>__proto__\<close>) the object \<^verbatim>\<open>Object.prototype\<close> itself.
\<close>

datatype jsval = JSUndefined | JSString string | JSFunction string | JSObjectPrototype

text \<open>
  The members of \<^verbatim>\<open>Object.prototype\<close> as the engine creates it. (A program that adds
  members to \<^verbatim>\<open>Object.prototype\<close> is outside the model.)
\<close>

definition objectPrototype :: "string \<rightharpoonup> jsval" where
  "objectPrototype =
     map_of
       [(''constructor'', JSFunction ''Object''),
        (''__defineGetter__'', JSFunction ''__defineGetter__''),
        (''__defineSetter__'', JSFunction ''__defineSetter__''),
        (''hasOwnProperty'', JSFunction ''hasOwnProperty''),
        (''__lookupGetter__'', JSFunction ''__lookupGetter__''),
        (''__lookupSetter__'', JSFunction ''__lookupSetter__''),
        (''isPrototypeOf'', JSFunction ''isPrototypeOf''),
        (''propertyIsEnumerable'', JSFunction ''propertyIsEnumerable''),
        (''toString'', JSFunction ''toString''),
        (''valueOf'', JSFunction ''valueOf''),
        (''__proto__'', JSObjectPrototype),
        (''toLocaleString'', JSFunction ''toLocaleString'')]"

text \<open>
  \<^verbatim>\<open>process.env[name]\<close>: the variable of that name when there is one, otherwise what
  \<^verbatim>\<open>Object.prototype\<close> has under that name, otherwise \<^verbatim>\<open>undefined\<close>.
\<close>

definition envGet :: "env \<Rightarrow> string \<Rightarrow> jsval" where
  "envGet penv name =
     (case penv name of
        Some s \<Rightarrow> JSString s
      | None \<Rightarrow> (case objectPrototype name of Some member \<Rightarrow> member | None \<Rightarrow> JSUndefined))"

text \<open>Truthiness (\<^verbatim>\<open>!raw\<close>, \<^verbatim>\<open>x || ""\<close>) and the conversion to a string.\<close>

fun truthy :: "jsval \<Rightarrow> bool" where
  "truthy JSUndefined = False"
| "truthy (JSString s) = (s \<noteq> [])"
| "truthy (JSFunction f) = True"
| "truthy JSObjectPrototype = True"

fun jsToString :: "jsval \<Rightarrow> string" where
  "jsToString JSUndefined = ''undefined''"
| "jsToString (JSString s) = s"
| "jsToString (JSFunction f) = ''function '' @ f @ ''() { [native code] }''"
| "jsToString JSObjectPrototype = ''[object Object]''"

text \<open>A string or \<^verbatim>\<open>undefined\<close>, as a value.\<close>

fun strOrUndef :: "string option \<Rightarrow> jsval" where
  "strOrUndef None = JSUndefined"
| "strOrUndef (Some s) = JSString s"

section \<open>Character classes of the regular expressions\<close>

text \<open>\<^verbatim>\<open>\w\<close> is \<^verbatim>\<open>[A-Za-z0-9_]\<close>; so is \<^verbatim>\<open>[A-Z0-9_]\<close> under the \<^verbatim>\<open>i\<close> flag.\<close>

definition isWordChar :: "char \<Rightarrow> bool" where
  "isWordChar c =
     (let n = (of_char c :: nat)
      in (48 \<le> n \<and> n \<le> 57) \<or> (65 \<le> n \<and> n \<le> 90) \<or> n = 95 \<or> (97 \<le> n \<and> n \<le> 122))"

text \<open>\<^verbatim>\<open>.\<close> is every code unit but the line terminators LF and CR.\<close>

definition isDotChar :: "char \<Rightarrow> bool" where
  "isDotChar c = (of_char c \<notin> {10, 13 :: nat})"

text \<open>
  \<^verbatim>\<open>String.prototype.toUpperCase\<close> on the code units U+0000 to U+00FF: the letters a to z
  and the letters U+00E0 to U+00FE (U+00F7, the division sign, apart) move down by 32, the
  sharp s U+00DF becomes \<open>SS\<close>, every other character stays. The upper-case forms of U+00B5
  and U+00FF are not in that range; strings that hold one of the two are outside the model
  of \<open>toUpperCase\<close>.
\<close>

definition upperChar :: "char \<Rightarrow> char" where
  "upperChar c =
     (case map_of
             (zip (''abcdefghijklmnopqrstuvwxyz''
                   @ [CHR 0xE0, CHR 0xE1, CHR 0xE2, CHR 0xE3, CHR 0xE4, CHR 0xE5, CHR 0xE6, CHR 0xE7,
                      CHR 0xE8, CHR 0xE9, CHR 0xEA, CHR 0xEB, CHR 0xEC, CHR 0xED, CHR 0xEE, CHR 0xEF,
                      CHR 0xF0, CHR 0xF1, CHR 0xF2, CHR 0xF3, CHR 0xF4, CHR 0xF5, CHR 0xF6,
                      CHR 0xF8, CHR 0xF9, CHR 0xFA, CHR 0xFB, CHR 0xFC, CHR 0xFD, CHR 0xFE])
                  (''ABCDEFGHIJKLMNOPQRSTUVWXYZ''
                   @ [CHR 0xC0, CHR 0xC1, CHR 0xC2, CHR 0xC3, CHR 0xC4, CHR 0xC5, CHR 0xC6, CHR 0xC7,
                      CHR 0xC8, CHR 0xC9, CHR 0xCA, CHR 0xCB, CHR 0xCC, CHR 0xCD, CHR 0xCE, CHR 0xCF,
                      CHR 0xD0, CHR 0xD1, CHR 0xD2, CHR 0xD3, CHR 0xD4, CHR 0xD5, CHR 0xD6,
                      CHR 0xD8, CHR 0xD9, CHR 0xDA, CHR 0xDB, CHR 0xDC, CHR 0xDD, CHR 0xDE])) c of
        None \<Rightarrow> c
      | Some u \<Rightarrow> u)"

definition upperStr :: "char \<Rightarrow> string" where
  "upperStr c = (if c = CHR 0xDF then ''SS'' else [upperChar c])"

definition toUpperCase :: "string \<Rightarrow> string" where
  "toUpperCase s = concat (map upperStr s)"

section \<open>The POSIX adapter: getRaw and getExpanded\<close>

text \<open>
  \<^verbatim>\<open>async function getRaw(name, { scope }) {
    if (scope === "session") { return process.env[name]; }
    if (scope === "user")   { throw new Error("Not implemented: getRaw user"); }
    if (scope === "system") { throw new Error("Not implemented: getRaw system"); }
  }\<close>
\<close>

fun posix_getRaw :: "env \<Rightarrow> string \<Rightarrow> scope \<Rightarrow> error + jsval" where
  "posix_getRaw penv name Session = Inr (envGet penv name)"
| "posix_getRaw penv name User = Inl (Error ''Not implemented: getRaw user'')"
| "posix_getRaw penv name System = Inl (Error ''Not implemented: getRaw system'')"

text \<open>
  One match of \<^verbatim>\<open>/\$(\w+)|\${(\w+)}/\<close> at the head of a string: the matched text, the
  referenced name (\<^verbatim>\<open>v1 || v2\<close>) and the text after the match. \<^verbatim>\<open>\w+\<close> is greedy and
  what follows it cannot be a word character, so the longest run is the only candidate.
\<close>

definition posixRefAt :: "string \<Rightarrow> (string \<times> string \<times> string) option" where
  "posixRefAt s =
     (case s of
        [] \<Rightarrow> None
      | c # cs \<Rightarrow>
          if c \<noteq> CHR ''$'' then None
          else if takeWhile isWordChar cs \<noteq> []
          then Some (c # takeWhile isWordChar cs, takeWhile isWordChar cs, dropWhile isWordChar cs)
          else (case cs of
                  [] \<Rightarrow> None
                | b # r \<Rightarrow>
                    if b = CHR ''{'' \<and> takeWhile isWordChar r \<noteq> []
                       \<and> dropWhile isWordChar r \<noteq> [] \<and> hd (dropWhile isWordChar r) = CHR ''}''
                    then Some (''${'' @ takeWhile isWordChar r @ ''}'', takeWhile isWordChar r,
                               tl (dropWhile isWordChar r))
                    else None))"

lemma posixRefAt_shorter:
  "posixRefAt s = Some (m, v, rest) \<Longrightarrow> length rest < length s"
proof -
  have le: "length (dropWhile isWordChar r) \<le> length r" for r
    by (rule length_dropWhile_le)
  assume "posixRefAt s = Some (m, v, rest)"
  then show ?thesis
    using le[of "tl s"] le[of "tl (tl s)"]
    by (auto simp: posixRefAt_def split: list.splits if_splits)
qed

text \<open>
  The replacer of \<^verbatim>\<open>getExpanded\<close>:
  \<^verbatim>\<open>(m, v1, v2) => { const v = v1 || v2;
      if (v === name) return m; // prevent infinite loop
      const sub = process.env[v] || ""; return sub; }\<close>
\<close>

definition posix_subst :: "env \<Rightarrow> string \<Rightarrow> string \<Rightarrow> string \<Rightarrow> string" where
  "posix_subst penv name m v =
     (if v = name then m
      else jsToString (if truthy (envGet penv v) then envGet penv v else JSString []))"

text \<open>
  \<^verbatim>\<open>val.replace(/\$(\w+)|\${(\w+)}/g, replacer)\<close>: the matches are found from left to right,
  each search starting where the last match ended; replaced text is not scanned again.
\<close>

function posix_expand :: "env \<Rightarrow> string \<Rightarrow> string \<Rightarrow> string" where
  "posix_expand penv name [] = []"
| "posix_expand penv name (c # cs) =
     (case posixRefAt (c # cs) of
        None \<Rightarrow> c # posix_expand penv name cs
      | Some (m, v, rest) \<Rightarrow> posix_subst penv name m v @ posix_expand penv name rest)"
  by pat_completeness auto
termination
  by (relation "measure (\<lambda>(penv, name, s). length s)") (auto dest: posixRefAt_shorter)

text \<open>
  \<^verbatim>\<open>async function getExpanded(name, { scope, expandAcrossScopes }) {
    let raw = await getRaw(name, { scope });
    if (!raw) return raw;
    // Expand $VAR and ${VAR} recursively
    const expand = async (val) => val.replace(/\$(\w+)|\${(\w+)}/g, ...);
    return expand(raw);
  }\<close>
  A value that is no string has no method \<^verbatim>\<open>replace\<close>: the call raises a \<^verbatim>\<open>TypeError\<close>.
\<close>

definition posix_getExpanded :: "env \<Rightarrow> string \<Rightarrow> scope \<Rightarrow> error + jsval" where
  "posix_getExpanded penv name sc =
     (case posix_getRaw penv name sc of
        Inl e \<Rightarrow> Inl e
      | Inr raw \<Rightarrow>
          if \<not> truthy raw then Inr raw
          else (case raw of
                  JSString s \<Rightarrow> Inr (JSString (posix_expand penv name s))
                | _ \<Rightarrow> Inl (TypeError ''val.replace is not a function'')))"

section \<open>The host\<close>

text \<open>
  Everything outside the process that the adapters and the backup store touch is one
  record, threaded through every operation:
  \<^item> \<open>procEnv\<close>: \<^verbatim>\<open>process.env\<close>;
  \<^item> \<open>fsFiles\<close>: the content of every file there is, by path; \<open>fsReadOnly\<close>: the paths
    that \<^verbatim>\<open>fs.writeFile\<close> is rejected on;
  \<^item> \<open>homeDir\<close>, \<open>tmpDir\<close>: \<^verbatim>\<open>os.homedir()\<close> and \<^verbatim>\<open>os.tmpdir()\<close>;
  \<^item> \<open>nowISO\<close>, \<open>nowMillis\<close>: \<^verbatim>\<open>new Date().toISOString()\<close> and \<^verbatim>\<open>Date.now()\<close> in decimal;
  \<^item> \<open>backupEntries\<close>: the backup directory, kept apart from the other files, as the
    list of its files (name and content) in directory order, or \<open>None\<close> when there is no
    such directory; \<open>backupWritable\<close>: whether \<^verbatim>\<open>fs.mkdir\<close> and \<^verbatim>\<open>fs.writeFile\<close>
    succeed there;
  \<^item> \<open>registry\<close>: the state of the Windows registry, of a type the registry tool chooses;
    \<open>regCalls\<close>: the calls of the registry tool so far, oldest first;
  \<^item> \<open>requireDefined\<close>: whether a function \<^verbatim>\<open>require\<close> is in scope of the Windows
    adapter (in an ES module none is, and calling it raises a \<^verbatim>\<open>ReferenceError\<close>).
\<close>

datatype regcmd =
    Query string string       \<comment> \<open>\<^verbatim>\<open>reg query regPath /v name\<close>\<close>
  | Add string string string  \<comment> \<open>\<^verbatim>\<open>reg add regPath /v name /d value /f\<close>\<close>
  | Delete string string      \<comment> \<open>\<^verbatim>\<open>reg delete regPath /v name /f\<close>\<close>
  | Export string             \<comment> \<open>\<^verbatim>\<open>reg export regPath - /y\<close>\<close>
  | Import string             \<comment> \<open>\<^verbatim>\<open>reg import tmp\<close>, with the content of the file \<open>tmp\<close>\<close>

record 'r host =
  procEnv :: env
  fsFiles :: "string \<rightharpoonup> string"
  fsReadOnly :: "string \<Rightarrow> bool"
  homeDir :: string
  tmpDir :: string
  nowISO :: string
  nowMillis :: string
  backupEntries :: "(string \<times> string) list option"
  backupWritable :: bool
  registry :: 'r
  regCalls :: "regcmd list"
  requireDefined :: bool

text \<open>
  The adapter shells out to the registry tool: \<^verbatim>\<open>execFileAsync("reg", [...])\<close>. The tool
  is not part of the repository, so it is a parameter of the model: a function from the
  registry's state and a command to the outcome of the call and the state after it. The
  outcome is \<open>Inr stdout\<close>, or \<open>Inl msg\<close> when the promise is rejected (the tool exits with
  a nonzero code, or cannot be started), \<open>msg\<close> being the error's message.
\<close>

type_synonym 'r regtool = "'r \<Rightarrow> regcmd \<Rightarrow> (string + string) \<times> 'r"

definition execReg :: "'r regtool \<Rightarrow> 'r host \<Rightarrow> regcmd \<Rightarrow> (string + string) \<times> 'r host" where
  "execReg reg h cmd =
     (case reg (registry h) cmd of
        (out, r') \<Rightarrow> (out, h\<lparr>registry := r', regCalls := regCalls h @ [cmd]\<rparr>))"

section \<open>The Windows adapter: getRaw and getExpanded\<close>

definition CASE_NORMALIZE :: "string \<Rightarrow> string" where
  "CASE_NORMALIZE k = toUpperCase k"

text \<open>
  \<^verbatim>\<open>scope === "user" ? "HKCU\\Environment"
     : "HKLM\\SYSTEM\\CurrentControlSet\\Control\\Session Manager\\Environment"\<close>
\<close>

definition regPathOf :: "scope \<Rightarrow> string" where
  "regPathOf sc =
     (if sc = User then ''HKCU'' @ [CHR 0x5C] @ ''Environment''
      else ''HKLM'' @ [CHR 0x5C] @ ''SYSTEM'' @ [CHR 0x5C] @ ''CurrentControlSet'' @ [CHR 0x5C]
           @ ''Control'' @ [CHR 0x5C] @ ''Session Manager'' @ [CHR 0x5C] @ ''Environment'')"

text \<open>
  One match of \<^verbatim>\<open>/\s+REG_\w+\s+(.+)/\<close> starting at the head of a string, giving the
  capture. The first \<^verbatim>\<open>\s+\<close> and the \<^verbatim>\<open>\w+\<close> can only take their longest runs. The second
  \<^verbatim>\<open>\s+\<close> takes its longest run too when a character follows it (that character is no
  white space, so \<^verbatim>\<open>.\<close> accepts it); when the run reaches the end of the string the
  matcher backtracks, and the capture is the last character of the run, the first apart,
  that \<^verbatim>\<open>.\<close> accepts.
\<close>

definition regValueAt :: "string \<Rightarrow> string option" where
  "regValueAt s =
     (let r1 = dropWhile isSpace s;
          r2 = drop 4 r1;
          w = takeWhile isWordChar r2;
          gap = takeWhile isSpace (dropWhile isWordChar r2);
          r4 = dropWhile isSpace (dropWhile isWordChar r2)
      in if takeWhile isSpace s = [] \<or> \<not> prefix ''REG_'' r1 \<or> w = [] \<or> gap = [] then None
         else if r4 \<noteq> [] then Some (takeWhile isDotChar r4)
         else (case filter isDotChar (tl gap) of [] \<Rightarrow> None | x # xs \<Rightarrow> Some [last (x # xs)]))"

text \<open>\<^verbatim>\<open>stdout.match(/\s+REG_\w+\s+(.+)/)\<close>: the leftmost match, \<open>None\<close> for \<^verbatim>\<open>null\<close>.\<close>

fun regValueMatch :: "string \<Rightarrow> string option" where
  "regValueMatch [] = None"
| "regValueMatch (c # cs) =
     (case regValueAt (c # cs) of Some cap \<Rightarrow> Some cap | None \<Rightarrow> regValueMatch cs)"

text \<open>
  \<^verbatim>\<open>async function getRaw(name, { scope }) {
    name = CASE_NORMALIZE(name);
    if (scope === "session") { return process.env[name]; }
    const regPath = ...;
    try {
      const { stdout } = await execFileAsync("reg", ["query", regPath, "/v", name]);
      const m = stdout.match(/\s+REG_\w+\s+(.+)/);
      return m ? m[1].trim() : undefined;
    } catch { return undefined; }
  }\<close>
  The result is paired with the host after the call. The name is upper-cased before
  \<^verbatim>\<open>process.env\<close> is read, and no member of \<^verbatim>\<open>Object.prototype\<close> has an upper-case name
  (lemma \<open>objectPrototype_upper\<close> below), so the access yields the variable or \<^verbatim>\<open>undefined\<close>;
  the same holds for every other access to \<^verbatim>\<open>process.env\<close> of this adapter.
\<close>

definition win_getRaw ::
  "'r regtool \<Rightarrow> 'r host \<Rightarrow> string \<Rightarrow> scope \<Rightarrow> (error + string option) \<times> 'r host" where
  "win_getRaw reg h name sc =
     (if sc = Session then (Inr (procEnv h (CASE_NORMALIZE name)), h)
      else (case execReg reg h (Query (regPathOf sc) (CASE_NORMALIZE name)) of
              (Inl msg, h') \<Rightarrow> (Inr None, h')
            | (Inr stdout, h') \<Rightarrow>
                (case regValueMatch stdout of
                   None \<Rightarrow> (Inr None, h')
                 | Some cap \<Rightarrow> (Inr (Some (trim cap)), h'))))"

text \<open>
  One match of \<^verbatim>\<open>/%([A-Z0-9_]+)%/gi\<close> at the head of a string: the matched text, the
  captured name and the text after the match.
\<close>

definition winRefAt :: "string \<Rightarrow> (string \<times> string \<times> string) option" where
  "winRefAt s =
     (case s of
        [] \<Rightarrow> None
      | c # cs \<Rightarrow>
          if c = CHR ''%'' \<and> takeWhile isWordChar cs \<noteq> []
             \<and> dropWhile isWordChar cs \<noteq> [] \<and> hd (dropWhile isWordChar cs) = CHR ''%''
          then Some (c # takeWhile isWordChar cs @ ''%'', takeWhile isWordChar cs,
                     tl (dropWhile isWordChar cs))
          else None)"

lemma winRefAt_shorter:
  "winRefAt s = Some (m, v, rest) \<Longrightarrow> length rest < length s"
proof -
  have le: "length (dropWhile isWordChar r) \<le> length r" for r
    by (rule length_dropWhile_le)
  assume "winRefAt s = Some (m, v, rest)"
  then show ?thesis
    using le[of "tl s"]
    by (auto simp: winRefAt_def split: list.splits if_splits)
qed

text \<open>
  The replacer of the Windows \<^verbatim>\<open>getExpanded\<close>; \<open>name\<close> is the function's own parameter,
  as the caller passed it:
  \<^verbatim>\<open>(m, v) => { v = CASE_NORMALIZE(v);
      if (v === name) return m; // prevent infinite loop
      const sub = process.env[v] || ""; return sub; }\<close>
\<close>

definition win_subst :: "env \<Rightarrow> string \<Rightarrow> string \<Rightarrow> string \<Rightarrow> string" where
  "win_subst penv name m v =
     (if CASE_NORMALIZE v = name then m
      else (case penv (CASE_NORMALIZE v) of None \<Rightarrow> [] | Some sub \<Rightarrow> sub))"

function win_expand :: "env \<Rightarrow> string \<Rightarrow> string \<Rightarrow> string" where
  "win_expand penv name [] = []"
| "win_expand penv name (c # cs) =
     (case winRefAt (c # cs) of
        None \<Rightarrow> c # win_expand penv name cs
      | Some (m, v, rest) \<Rightarrow> win_subst penv name m v @ win_expand penv name rest)"
  by pat_completeness auto
termination
  by (relation "measure (\<lambda>(penv, name, s). length s)") (auto dest: winRefAt_shorter)

text \<open>
  \<^verbatim>\<open>async function getExpanded(name, { scope, expandAcrossScopes }) {
    let raw = await getRaw(name, { scope });
    if (!raw) return raw;
    ...
    return expand(raw);
  }\<close>
\<close>

definition win_getExpanded ::
  "'r regtool \<Rightarrow> 'r host \<Rightarrow> string \<Rightarrow> scope \<Rightarrow> (error + string option) \<times> 'r host" where
  "win_getExpanded reg h name sc =
     (case win_getRaw reg h name sc of
        (Inl e, h') \<Rightarrow> (Inl e, h')
      | (Inr None, h') \<Rightarrow> (Inr None, h')
      | (Inr (Some raw), h') \<Rightarrow>
          if raw = [] then (Inr (Some raw), h')
          else (Inr (Some (win_expand (procEnv h') name raw)), h'))"

text \<open>
  A text ends inside an unfinished reference when its scan, from left to right as
  \<open>win_expand\<close> does it, comes to a \<open>%\<close> that only word characters follow, up to the end
  of the text: a \<open>%\<close> appended to such a text would close that reference.
\<close>

function winOpenAtEnd :: "string \<Rightarrow> bool" where
  "winOpenAtEnd [] = False"
| "winOpenAtEnd (c # cs) =
     (case winRefAt (c # cs) of
        None \<Rightarrow> (c = CHR ''%'' \<and> cs \<noteq> [] \<and> list_all isWordChar cs) \<or> winOpenAtEnd cs
      | Some (m, v, rest) \<Rightarrow> winOpenAtEnd rest)"
  by pat_completeness auto
termination
  by (relation "measure length") (auto dest: winRefAt_shorter)

section \<open>The backup store: purge\<close>

text \<open>
  The backup directory, as \<^verbatim>\<open>fs.readdir\<close> sees it, is a list of file names in directory
  order, or \<open>None\<close> when the directory cannot be read. What the host decides is a parameter
  of the model:
  \<^item> \<open>collKey\<close>, the collation of \<^verbatim>\<open>String.prototype.localeCompare\<close>, as a sort key into
    a linear order: \<^verbatim>\<open>b.localeCompare(a) < 0\<close> exactly when \<open>collKey b < collKey a\<close>;
  \<^item> \<open>dateParse\<close>, the parser of \<^verbatim>\<open>new Date(string)\<close>: \<open>None\<close> for an invalid date,
    otherwise \<^verbatim>\<open>getTime()\<close>, the milliseconds since the epoch;
  \<^item> \<open>locked\<close>, the files that \<^verbatim>\<open>fs.unlink\<close> fails on;
  \<^item> \<open>now\<close>, the value of \<^verbatim>\<open>Date.now()\<close>.
  The options are integers; the age in days is compared exactly, without rounding.
\<close>

record policy =
  maxPerScope :: int
  maxAgeDays :: int

text \<open>\<^verbatim>\<open>purge({ maxPerScope = 20, maxAgeDays = 30 } = {})\<close>\<close>

definition defaultPolicy :: policy where
  "defaultPolicy = \<lparr>maxPerScope = 20, maxAgeDays = 30\<rparr>"

definition isDigit :: "char \<Rightarrow> bool" where
  "isDigit c = (48 \<le> (of_char c :: nat) \<and> (of_char c :: nat) \<le> 57)"

text \<open>\<^verbatim>\<open>const [scope] = file.split("-")\<close>: the text before the first hyphen.\<close>

definition scopeOf :: "string \<Rightarrow> string" where
  "scopeOf file = takeWhile (\<lambda>c. c \<noteq> CHR ''-'') file"

text \<open>
  \<^verbatim>\<open>for (const scope in byScope)\<close> visits the keys of \<^verbatim>\<open>byScope\<close> in property order: the
  keys that are array indices (canonical decimal numerals below \<open>2^32 - 1\<close>) in ascending
  order, then the other keys in the order of their creation.
\<close>

definition intOfDigits :: "string \<Rightarrow> int" where
  "intOfDigits s = foldl (\<lambda>n c. 10 * n + (of_char c - 48)) 0 s"

definition isArrayIndex :: "string \<Rightarrow> bool" where
  "isArrayIndex s =
     (s \<noteq> [] \<and> list_all isDigit s \<and> (s = ''0'' \<or> hd s \<noteq> CHR ''0'') \<and> intOfDigits s < 4294967295)"

definition firstOccurrences :: "'a list \<Rightarrow> 'a list" where
  "firstOccurrences xs = rev (remdups (rev xs))"

definition scopeKeys :: "string list \<Rightarrow> string list" where
  "scopeKeys files =
     (let ks = firstOccurrences (map scopeOf files)
      in sort_key intOfDigits (filter isArrayIndex ks) @ filter (\<lambda>k. \<not> isArrayIndex k) ks)"

text \<open>\<^verbatim>\<open>byScope[scope]\<close>: the files of one scope, in directory order.\<close>

definition scopeGroup :: "string list \<Rightarrow> string \<Rightarrow> string list" where
  "scopeGroup files k = filter (\<lambda>f. scopeOf f = k) files"

text \<open>
  \<^verbatim>\<open>byScope[scope].sort((a, b) => b.localeCompare(a))\<close>: a stable sort, descending in the
  collation order.
\<close>

definition sortDesc :: "(string \<Rightarrow> 'k::linorder) \<Rightarrow> string list \<Rightarrow> string list" where
  "sortDesc collKey xs = rev (sort_key collKey (rev xs))"

text \<open>
  \<^verbatim>\<open>file.match(/(\d{4}-\d{2}-\d{2}T\d{2}-\d{2}-\d{2})/)\<close>: the leftmost place where the
  nineteen characters fit the pattern. In \<open>datePattern\<close> the letter \<open>d\<close> stands for a digit.
\<close>

definition datePattern :: string where
  "datePattern = ''dddd-dd-ddTdd-dd-dd''"

definition dateAt :: "string \<Rightarrow> bool" where
  "dateAt s =
     (length datePattern \<le> length s
      \<and> list_all2 (\<lambda>p c. if p = CHR ''d'' then isDigit c else c = p)
           datePattern (take (length datePattern) s))"

fun dateMatch :: "string \<Rightarrow> string option" where
  "dateMatch [] = None"
| "dateMatch (c # cs) =
     (if dateAt (c # cs) then Some (take (length datePattern) (c # cs)) else dateMatch cs)"

text \<open>
  The argument of \<^verbatim>\<open>new Date(...)\<close>:
  \<^verbatim>\<open>match[1].replace(/-/g, ":").replace("T", "T").replace(/(\d{2})$/, ".$1Z")\<close>.
  Every hyphen becomes a colon; the second replacement changes nothing; the third puts a
  dot before and a \<open>Z\<close> after the last two characters when both are digits.
\<close>

definition dateString :: "string \<Rightarrow> string" where
  "dateString m =
     (let s = map (\<lambda>c. if c = CHR ''-'' then CHR '':'' else c) m;
          n = length s
      in if 2 \<le> n \<and> list_all isDigit (drop (n - 2) s)
         then take (n - 2) s @ ''.'' @ drop (n - 2) s @ ''Z''
         else s)"

text \<open>
  \<^verbatim>\<open>let tooOld = false;
  if (match) {
    const fileDate = new Date(...);
    if (!isNaN(fileDate)) {
      const age = (now - fileDate.getTime()) / (1000 * 60 * 60 * 24);
      if (age > maxAgeDays) tooOld = true;
    }
  }\<close>
\<close>

definition tooOld :: "(string \<Rightarrow> int option) \<Rightarrow> int \<Rightarrow> policy \<Rightarrow> string \<Rightarrow> bool" where
  "tooOld dateParse now pol file =
     (case dateMatch file of
        None \<Rightarrow> False
      | Some m \<Rightarrow>
          (case dateParse (dateString m) of
             None \<Rightarrow> False
           | Some t \<Rightarrow> now - t > maxAgeDays pol * (1000 * 60 * 60 * 24)))"

text \<open>
  \<^verbatim>\<open>fs.unlink\<close> removes a file that is there and not locked, and is rejected otherwise.
\<close>

definition unlink :: "(string \<Rightarrow> bool) \<Rightarrow> string \<Rightarrow> string list \<Rightarrow> string list option" where
  "unlink locked file dir =
     (if file \<in> set dir \<and> \<not> locked file then Some (filter (\<lambda>g. g \<noteq> file) dir) else None)"

text \<open>
  The inner loop over one sorted group, from index \<open>i\<close> on, threading the directory and
  the count of deleted files:
  \<^verbatim>\<open>if (i >= maxPerScope || tooOld) {
    try { await fs.unlink(join(dir, file)); deleted++; } catch {}
  }\<close>
\<close>

fun purgeGroup ::
  "(string \<Rightarrow> int option) \<Rightarrow> (string \<Rightarrow> bool) \<Rightarrow> int \<Rightarrow> policy \<Rightarrow> nat \<Rightarrow> string list
     \<Rightarrow> string list \<times> nat \<Rightarrow> string list \<times> nat" where
  "purgeGroup dateParse locked now pol i [] st = st"
| "purgeGroup dateParse locked now pol i (file # rest) (dir, deleted) =
     (if int i \<ge> maxPerScope pol \<or> tooOld dateParse now pol file
      then (case unlink locked file dir of
              Some dir' \<Rightarrow> purgeGroup dateParse locked now pol (Suc i) rest (dir', deleted + 1)
            | None \<Rightarrow> purgeGroup dateParse locked now pol (Suc i) rest (dir, deleted))
      else purgeGroup dateParse locked now pol (Suc i) rest (dir, deleted))"

text \<open>
  The grouping loop, before any file is deleted:
  \<^verbatim>\<open>const byScope = {};
  for (const file of files) {
    const [scope] = file.split("-");
    if (!byScope[scope]) byScope[scope] = [];
    byScope[scope].push(file);
  }\<close>
  \<^verbatim>\<open>byScope\<close> inherits from \<^verbatim>\<open>Object.prototype\<close>. For a file whose scope prefix names a
  member of it (\<open>constructor-1.bak\<close>, or a file called \<open>toString\<close>), \<^verbatim>\<open>byScope[scope]\<close> is
  that member, which is truthy and has no method \<^verbatim>\<open>push\<close>: the call raises a \<^verbatim>\<open>TypeError\<close>
  and \<open>purge\<close> is rejected with every file still in place.
\<close>

definition inheritedScope :: "string \<Rightarrow> bool" where
  "inheritedScope file = (objectPrototype (scopeOf file) \<noteq> None)"

text \<open>
  \<open>purge\<close> returns the number of deleted files, or the error it is rejected with, paired
  with the directory after the call. A directory that cannot be read gives 0. The groups
  are built from the listing read at the start.
\<close>

definition purge ::
  "(string \<Rightarrow> 'k::linorder) \<Rightarrow> (string \<Rightarrow> int option) \<Rightarrow> (string \<Rightarrow> bool) \<Rightarrow> int \<Rightarrow> policy
     \<Rightarrow> string list option \<Rightarrow> (error + nat) \<times> string list option" where
  "purge collKey dateParse locked now pol backupDir =
     (case backupDir of
        None \<Rightarrow> (Inr 0, None)
      | Some files \<Rightarrow>
          if list_ex inheritedScope files
          then (Inl (TypeError ''byScope[scope].push is not a function''), Some files)
          else (let (dir', deleted) =
                      foldl (\<lambda>st k. purgeGroup dateParse locked now pol 0
                                      (sortDesc collKey (scopeGroup files k)) st)
                            (files, 0) (scopeKeys files)
                in (Inr deleted, Some dir')))"

section \<open>Auxiliary notions for the analysis of purge\<close>


text \<open>
  \<open>dels\<close> lists the files of a sorted group that the inner loop deletes, \<open>kept\<close> those it
  leaves, both from index \<open>i\<close> on: a file goes when its index reaches \<open>maxPerScope\<close> or it
  is too old, and it is not locked.
\<close>

definition doomed ::
  "(string \<Rightarrow> int option) \<Rightarrow> (string \<Rightarrow> bool) \<Rightarrow> int \<Rightarrow> policy \<Rightarrow> nat \<Rightarrow> string \<Rightarrow> bool" where
  "doomed dp lk now pol i f = ((int i \<ge> maxPerScope pol \<or> tooOld dp now pol f) \<and> \<not> lk f)"





section \<open>The backup store: createBackup and list\<close>

text \<open>
  \<^verbatim>\<open>async function createBackup(scope, name, value) {
    const dir = getBackupDir();
    const ts = new Date().toISOString().replace(/[:.]/g, "-");
    const file = join(dir, `${scope}-${name}-${ts}.bak`);
    await fs.mkdir(dir, { recursive: true });
    await fs.writeFile(file, value ?? "", "utf8");
    return file;
  }\<close>
  A backup file is known by its name inside the backup directory. Writing a file that
  exists replaces its content; a new file goes to the end of the listing.
\<close>

definition backupName :: "scope \<Rightarrow> string \<Rightarrow> string \<Rightarrow> string" where
  "backupName sc name ts =
     scopeName sc @ ''-'' @ name @ ''-''
       @ map (\<lambda>c. if c = CHR '':'' \<or> c = CHR ''.'' then CHR ''-'' else c) ts @ ''.bak''"

definition createBackup :: "'r host \<Rightarrow> scope \<Rightarrow> string \<Rightarrow> string \<Rightarrow> (error + string) \<times> 'r host" where
  "createBackup h sc name content =
     (let file = backupName sc name (nowISO h)
      in if \<not> backupWritable h then (Inl (IOError file), h)
         else (Inr file,
               h\<lparr>backupEntries :=
                    Some (AList.update file content
                            (case backupEntries h of None \<Rightarrow> [] | Some es \<Rightarrow> es))\<rparr>))"

text \<open>
  \<^verbatim>\<open>async function list({ scope }) {
    const dir = getBackupDir();
    try {
      const files = await fs.readdir(dir);
      return files.filter((f) => f.startsWith(scope + "-"));
    } catch { return []; }
  }\<close>
\<close>

definition backup_list :: "'r host \<Rightarrow> scope \<Rightarrow> string list" where
  "backup_list h sc =
     (case backupEntries h of
        None \<Rightarrow> []
      | Some es \<Rightarrow> filter (prefix (scopeName sc @ ''-'')) (map fst es))"

section \<open>Files\<close>

text \<open>
  \<^verbatim>\<open>try { oldContent = await fs.readFile(file, "utf8"); } catch { oldContent = ""; }\<close>
\<close>

definition readFileOrEmpty :: "'r host \<Rightarrow> string \<Rightarrow> string" where
  "readFileOrEmpty h path = (case fsFiles h path of None \<Rightarrow> [] | Some content \<Rightarrow> content)"

text \<open>\<^verbatim>\<open>await fs.writeFile(file, content, "utf8")\<close>\<close>

definition writeFile :: "'r host \<Rightarrow> string \<Rightarrow> string \<Rightarrow> error + 'r host" where
  "writeFile h path content =
     (if fsReadOnly h path then Inl (IOError path)
      else Inr (h\<lparr>fsFiles := (fsFiles h)(path \<mapsto> content)\<rparr>))"

section \<open>Options and results of a mutation\<close>

text \<open>
  \<^verbatim>\<open>const { scope, backup: doBackup = true, verify = true, rollbackOnFail = true } = opts || {};\<close>
\<close>

record options =
  scope :: scope
  backup :: bool
  verify :: bool
  rollbackOnFail :: bool

text \<open>
  The \<^verbatim>\<open>rollback\<close> field of a result is \<^verbatim>\<open>null\<close>, \<^verbatim>\<open>undefined\<close> (the variable was never
  assigned) or \<^verbatim>\<open>true\<close>.
\<close>

datatype rollbackMark = RollbackNull | RollbackUndefined | RollbackTrue

text \<open>
  \<^verbatim>\<open>{ ok, scope, name, previous, next, verification, rollback, notes }\<close>
\<close>

record result =
  ok :: bool
  resScope :: scope
  resName :: string
  previous :: jsval
  nextValue :: "string option"
  verification :: bool
  rollback :: rollbackMark
  resNotes :: "string list"

section \<open>The POSIX adapter: the content of the profile and of the system file\<close>

abbreviation LF :: char where "LF \<equiv> CHR 0x0A"

abbreviation QUOTE :: char where "QUOTE \<equiv> CHR 0x27"

text \<open>The first occurrence of a text in a string: what stands before it and after it.\<close>

fun splitAtFirst :: "string \<Rightarrow> string \<Rightarrow> (string \<times> string) option" where
  "splitAtFirst pat [] = (if pat = [] then Some ([], []) else None)"
| "splitAtFirst pat (c # cs) =
     (if prefix pat (c # cs) then Some ([], drop (length pat) (c # cs))
      else map_option (\<lambda>(pre, post). (c # pre, post)) (splitAtFirst pat cs))"

definition beginMarker :: string where
  "beginMarker = ''# envm-begin''"

definition endMarker :: string where
  "endMarker = ''# envm-end''"

text \<open>
  \<^verbatim>\<open>let block = oldContent.match(/# envm-begin\n([\s\S]*?)# envm-end/m);\<close> gives
  \<^verbatim>\<open>block[1]\<close>, the text between the first begin marker that a line feed follows and the
  first end marker after it, or \<open>None\<close> for \<^verbatim>\<open>null\<close>.
\<close>

definition blockBody :: "string \<Rightarrow> string option" where
  "blockBody content =
     (case splitAtFirst (beginMarker @ [LF]) content of
        None \<Rightarrow> None
      | Some (pre, rest) \<Rightarrow>
          (case splitAtFirst endMarker rest of
             None \<Rightarrow> None
           | Some (body, post) \<Rightarrow> Some body))"

text \<open>\<^verbatim>\<open>let lines = block ? block[1].split(/\n/) : [];\<close>\<close>

definition blockLines :: "string \<Rightarrow> string list" where
  "blockLines content =
     (case blockBody content of None \<Rightarrow> [] | Some body \<Rightarrow> jsSplit body [LF])"

text \<open>
  \<^verbatim>\<open>const m = l.match(/^export\s+(\w+)=(.*)$/);\<close> gives \<^verbatim>\<open>m[1]\<close>, or \<open>None\<close> for
  \<^verbatim>\<open>null\<close>. Without the \<^verbatim>\<open>m\<close> flag \<^verbatim>\<open>$\<close> is the end of the string, so no line terminator
  may follow the equals sign.
\<close>

definition exportName :: "string \<Rightarrow> string option" where
  "exportName l =
     (let r = drop 6 l;
          w = takeWhile isWordChar (dropWhile isSpace r);
          r3 = dropWhile isWordChar (dropWhile isSpace r)
      in if prefix ''export'' l \<and> takeWhile isSpace r \<noteq> [] \<and> w \<noteq> [] \<and> r3 \<noteq> []
            \<and> hd r3 = CHR ''='' \<and> list_all isDotChar (tl r3)
         then Some w else None)"

text \<open>\<^verbatim>\<open>`export ${name}='${value}'`\<close> and \<^verbatim>\<open>`${name}='${value}'`\<close>\<close>

definition exportLine :: "string \<Rightarrow> string \<Rightarrow> string" where
  "exportLine name value = ''export '' @ name @ ''='' @ [QUOTE] @ value @ [QUOTE]"

definition systemLine :: "string \<Rightarrow> string \<Rightarrow> string" where
  "systemLine name value = name @ ''='' @ [QUOTE] @ value @ [QUOTE]"

text \<open>
  \<^verbatim>\<open>const newBlock = `# envm-begin\n${lines.filter(Boolean).join("\n")}\n# envm-end`;\<close>
\<close>

definition newBlockOf :: "string list \<Rightarrow> string" where
  "newBlockOf lines =
     beginMarker @ [LF] @ jsJoin (filter (\<lambda>l. l \<noteq> []) lines) [LF] @ [LF] @ endMarker"

text \<open>
  The replacement text of \<^verbatim>\<open>String.prototype.replace\<close> for a pattern without groups:
  \<^verbatim>\<open>$$\<close> stands for a dollar sign, \<^verbatim>\<open>$&\<close> for the matched text, \<^verbatim>\<open>$`\<close> for the text
  before the match and \<^verbatim>\<open>$'\<close> for the text after it; every other character stands for
  itself.
\<close>

fun expandReplacement :: "string \<Rightarrow> string \<Rightarrow> string \<Rightarrow> string \<Rightarrow> string" where
  "expandReplacement matched pre post [] = []"
| "expandReplacement matched pre post [c] = [c]"
| "expandReplacement matched pre post (c # d # r) =
     (if c = CHR ''$'' \<and> d = CHR ''$'' then c # expandReplacement matched pre post r
      else if c = CHR ''$'' \<and> d = CHR ''&'' then matched @ expandReplacement matched pre post r
      else if c = CHR ''$'' \<and> d = CHR 0x60 then pre @ expandReplacement matched pre post r
      else if c = CHR ''$'' \<and> d = QUOTE then post @ expandReplacement matched pre post r
      else c # expandReplacement matched pre post (d # r))"

text \<open>
  \<^verbatim>\<open>newContent = oldContent.replace(/# envm-begin[\s\S]*?# envm-end/m, newBlock);\<close>:
  the first begin marker (here no line feed need follow it) up to the first end marker
  after it is replaced; without such a match the content stays.
\<close>

definition replaceBlock :: "string \<Rightarrow> string \<Rightarrow> string" where
  "replaceBlock content newBlock =
     (case splitAtFirst beginMarker content of
        None \<Rightarrow> content
      | Some (pre, rest) \<Rightarrow>
          (case splitAtFirst endMarker rest of
             None \<Rightarrow> content
           | Some (mid, post) \<Rightarrow>
               pre @ expandReplacement (beginMarker @ mid @ endMarker) pre post newBlock
                 @ post))"

text \<open>
  \<^verbatim>\<open>if (!/# envm-begin/.test(newContent)) newContent += `\n${newBlock}\n`;\<close>
\<close>

definition ensureBlock :: "string \<Rightarrow> string \<Rightarrow> string" where
  "ensureBlock content newBlock =
     (if splitAtFirst beginMarker content = None then content @ [LF] @ newBlock @ [LF]
      else content)"

text \<open>
  The new content of the profile for \<open>set\<close>:
  \<^verbatim>\<open>let found = false;
  lines = lines.map((l) => {
    const m = l.match(/^export\s+(\w+)=(.*)$/);
    if (m && m[1] === name) { found = true; return `export ${name}='${value}'`; }
    return l;
  });
  if (!found) lines.push(`export ${name}='${value}'`);\<close>
\<close>

definition userSetContent :: "string \<Rightarrow> string \<Rightarrow> string \<Rightarrow> string" where
  "userSetContent content name value =
     (let lines = blockLines content;
          mapped = map (\<lambda>l. if exportName l = Some name then exportLine name value else l) lines;
          lines' = (if list_ex (\<lambda>l. exportName l = Some name) lines then mapped
                    else mapped @ [exportLine name value]);
          newBlock = newBlockOf lines'
      in ensureBlock (replaceBlock content newBlock) newBlock)"

text \<open>
  The new content of the profile for \<open>unset\<close>:
  \<^verbatim>\<open>lines = lines.filter((l) => !l.match(new RegExp(`^export\s+${name}=`)));\<close>
  In the template literal \<^verbatim>\<open>\s\<close> is the letter \<open>s\<close>, so the source of the pattern is
  \<open>^exports+\<close>, the name and \<open>=\<close>. The name is spliced into the pattern as it is, so the
  pattern is only known at run time; the engine of \<^verbatim>\<open>RegExp\<close> is a parameter of the
  model: \<open>regExp src\<close> is \<open>None\<close> when \<^verbatim>\<open>new RegExp(src)\<close> raises a \<^verbatim>\<open>SyntaxError\<close>, and
  otherwise the test whether a string has a match. The pattern is built once per line, so
  a block without lines never builds it.
\<close>

definition unsetPattern :: "string \<Rightarrow> string" where
  "unsetPattern name = ''^exports+'' @ name @ ''=''"

definition userUnsetContent ::
  "(string \<Rightarrow> (string \<Rightarrow> bool) option) \<Rightarrow> string \<Rightarrow> string \<Rightarrow> error + string" where
  "userUnsetContent regExp content name =
     (let lines = blockLines content
      in if lines \<noteq> [] \<and> regExp (unsetPattern name) = None
         then Inl (SyntaxError (unsetPattern name))
         else (let lines' = filter (\<lambda>l. case regExp (unsetPattern name) of
                                            None \<Rightarrow> True | Some test \<Rightarrow> \<not> test l) lines;
                   newBlock = newBlockOf lines'
               in Inr (ensureBlock (replaceBlock content newBlock) newBlock)))"

text \<open>
  The new content of the system file for \<open>set\<close> and for \<open>unset\<close>:
  \<^verbatim>\<open>let lines = oldContent.split(/\n/);
  let found = false;
  lines = lines.map((l) => {
    if (l.startsWith(name + "=")) { found = true; return `${name}='${value}'`; }
    return l;
  });
  if (!found) lines.push(`${name}='${value}'`);
  newContent = lines.join("\n");\<close>
  and
  \<^verbatim>\<open>lines = lines.filter((l) => !l.startsWith(name + "="));
  newContent = lines.join("\n");\<close>
\<close>

definition systemSetContent :: "string \<Rightarrow> string \<Rightarrow> string \<Rightarrow> string" where
  "systemSetContent content name value =
     (let lines = jsSplit content [LF];
          mapped = map (\<lambda>l. if prefix (name @ ''='') l then systemLine name value else l) lines;
          lines' = (if list_ex (prefix (name @ ''='')) lines then mapped
                    else mapped @ [systemLine name value])
      in jsJoin lines' [LF])"

definition systemUnsetContent :: "string \<Rightarrow> string \<Rightarrow> string" where
  "systemUnsetContent content name =
     jsJoin (filter (\<lambda>l. \<not> prefix (name @ ''='') l) (jsSplit content [LF])) [LF]"

section \<open>The POSIX adapter: set and unset\<close>

text \<open>
  \<^verbatim>\<open>file = join(homedir(), ".profile");\<close> at user scope, \<^verbatim>\<open>file = "/etc/environment";\<close>
  at system scope.
\<close>

definition posixFile :: "'r host \<Rightarrow> scope \<Rightarrow> string" where
  "posixFile h sc = (if sc = User then homeDir h @ ''/.profile'' else ''/etc/environment'')"

text \<open>
  \<^verbatim>\<open>if (doBackup) backupPath = await backup.createBackup(scope, name, oldContent);\<close>
\<close>

definition posix_backup ::
  "'r host \<Rightarrow> options \<Rightarrow> string \<Rightarrow> string \<Rightarrow> error + 'r host" where
  "posix_backup h opts name oldContent =
     (if backup opts
      then (case createBackup h (scope opts) name oldContent of
              (Inl e, h') \<Rightarrow> Inl e
            | (Inr backupPath, h') \<Rightarrow> Inr h')
      else Inr h)"

text \<open>
  The four branches for user and system scope of \<open>set\<close> and \<open>unset\<close> end alike, \<open>intended\<close>
  being \<open>value\<close> for \<open>set\<close> and \<^verbatim>\<open>undefined\<close> for \<open>unset\<close>:
  \<^verbatim>\<open>await fs.writeFile(file, newContent, "utf8");
  verification = (await getRaw(name, { scope })) === intended;
  if (!verification && rollbackOnFail && doBackup) {
    await fs.writeFile(file, oldContent, "utf8");
    rollback = true;
  }
  return { ok: verification, scope, name, previous: undefined, next: intended,
           verification, rollback, notes: [file] };\<close>
  No call is guarded: a rejection leaves the function with the host as it is then.
\<close>

definition posix_commit ::
  "'r host \<Rightarrow> string \<Rightarrow> options \<Rightarrow> string \<Rightarrow> string \<Rightarrow> string \<Rightarrow> string option
     \<Rightarrow> (error + result) \<times> 'r host" where
  "posix_commit h name opts file oldContent newContent intended =
     (case writeFile h file newContent of
        Inl e \<Rightarrow> (Inl e, h)
      | Inr h1 \<Rightarrow>
          (case posix_getRaw (procEnv h1) name (scope opts) of
             Inl e \<Rightarrow> (Inl e, h1)
           | Inr got \<Rightarrow>
               if got \<noteq> strOrUndef intended \<and> rollbackOnFail opts \<and> backup opts
               then (case writeFile h1 file oldContent of
                       Inl e \<Rightarrow> (Inl e, h1)
                     | Inr h2 \<Rightarrow>
                         (Inr \<lparr>ok = (got = strOrUndef intended), resScope = scope opts, resName = name,
                               previous = JSUndefined, nextValue = intended,
                               verification = (got = strOrUndef intended), rollback = RollbackTrue,
                               resNotes = [file]\<rparr>, h2))
               else (Inr \<lparr>ok = (got = strOrUndef intended), resScope = scope opts, resName = name,
                          previous = JSUndefined, nextValue = intended,
                          verification = (got = strOrUndef intended), rollback = RollbackUndefined,
                          resNotes = [file]\<rparr>, h1)))"

text \<open>
  \<^verbatim>\<open>async function set(name, value, opts = {})\<close>. At session scope:
  \<^verbatim>\<open>const previous = process.env[name];
  process.env[name] = value;
  return { ok: true, scope, name, previous, next: value, verification: true,
           rollback: null, notes: ["session only"] };\<close>
\<close>

definition posix_set ::
  "'r host \<Rightarrow> string \<Rightarrow> string \<Rightarrow> options \<Rightarrow> (error + result) \<times> 'r host" where
  "posix_set h name value opts =
     (if scope opts = Session
      then (Inr \<lparr>ok = True, resScope = Session, resName = name, previous = envGet (procEnv h) name,
                 nextValue = Some value, verification = True, rollback = RollbackNull,
                 resNotes = [''session only'']\<rparr>,
            h\<lparr>procEnv := (procEnv h)(name \<mapsto> value)\<rparr>)
      else (let file = posixFile h (scope opts);
                oldContent = readFileOrEmpty h file
            in case posix_backup h opts name oldContent of
                 Inl e \<Rightarrow> (Inl e, h)
               | Inr h1 \<Rightarrow>
                   posix_commit h1 name opts file oldContent
                     (if scope opts = User then userSetContent oldContent name value
                      else systemSetContent oldContent name value)
                     (Some value)))"

text \<open>
  \<^verbatim>\<open>async function unset(name, opts = {})\<close>. At session scope:
  \<^verbatim>\<open>const previous = process.env[name];
  delete process.env[name];
  return { ok: true, scope, name, previous, next: undefined, verification: true,
           rollback: null, notes: ["session only"] };\<close>
\<close>

definition posix_unset ::
  "(string \<Rightarrow> (string \<Rightarrow> bool) option) \<Rightarrow> 'r host \<Rightarrow> string \<Rightarrow> options
     \<Rightarrow> (error + result) \<times> 'r host" where
  "posix_unset regExp h name opts =
     (if scope opts = Session
      then (Inr \<lparr>ok = True, resScope = Session, resName = name, previous = envGet (procEnv h) name,
                 nextValue = None, verification = True, rollback = RollbackNull,
                 resNotes = [''session only'']\<rparr>,
            h\<lparr>procEnv := (procEnv h)(name := None)\<rparr>)
      else (let file = posixFile h (scope opts);
                oldContent = readFileOrEmpty h file
            in case posix_backup h opts name oldContent of
                 Inl e \<Rightarrow> (Inl e, h)
               | Inr h1 \<Rightarrow>
                   (case (if scope opts = User then userUnsetContent regExp oldContent name
                          else Inr (systemUnsetContent oldContent name)) of
                      Inl e \<Rightarrow> (Inl e, h1)
                    | Inr newContent \<Rightarrow>
                        posix_commit h1 name opts file oldContent newContent None)))"

section \<open>The Windows adapter: set and unset\<close>

text \<open>
  \<^verbatim>\<open>if (doBackup) {
    try {
      const { stdout } = await execFileAsync("reg", ["export", regPath, "-", "/y"]);
      backupPath = await backup.createBackup(scope, name, stdout);
    } catch {}
  }\<close>
  \<open>None\<close> is \<^verbatim>\<open>backupPath\<close> left \<^verbatim>\<open>undefined\<close>.
\<close>

definition win_backup ::
  "'r regtool \<Rightarrow> 'r host \<Rightarrow> options \<Rightarrow> string \<Rightarrow> string option \<times> 'r host" where
  "win_backup reg h opts name =
     (if backup opts
      then (case execReg reg h (Export (regPathOf (scope opts))) of
              (Inl msg, h1) \<Rightarrow> (None, h1)
            | (Inr stdout, h1) \<Rightarrow>
                (case createBackup h1 (scope opts) name stdout of
                   (Inl e, h2) \<Rightarrow> (None, h2)
                 | (Inr backupPath, h2) \<Rightarrow> (Some backupPath, h2)))
      else (None, h))"

text \<open>
  The body of the rollback, the whole of it inside \<^verbatim>\<open>try { ... } catch {}\<close>:
  \<^verbatim>\<open>const backupContent = await backup.list({ scope }); // get latest backup
  if (backupContent && backupContent.length) {
    const tmp = require("os").tmpdir() + `\\envm-rollback-${Date.now()}.reg`;
    await require("fs").promises.writeFile(tmp,
      await require("fs").promises.readFile(backupPath, "utf8"), "utf8");
    await execFileAsync("reg", ["import", tmp]);
  }
  rollback = true;\<close>
  Any rejection inside leaves \<^verbatim>\<open>rollback\<close> unassigned.
\<close>

definition win_rollback ::
  "'r regtool \<Rightarrow> 'r host \<Rightarrow> scope \<Rightarrow> string \<Rightarrow> rollbackMark \<times> 'r host" where
  "win_rollback reg h sc backupPath =
     (if backup_list h sc = [] then (RollbackTrue, h)
      else if \<not> requireDefined h then (RollbackUndefined, h)
      else (case map_of (case backupEntries h of None \<Rightarrow> [] | Some es \<Rightarrow> es) backupPath of
              None \<Rightarrow> (RollbackUndefined, h)
            | Some content \<Rightarrow>
                (case writeFile h (tmpDir h @ [CHR 0x5C] @ ''envm-rollback-'' @ nowMillis h @ ''.reg'')
                        content of
                   Inl e \<Rightarrow> (RollbackUndefined, h)
                 | Inr h1 \<Rightarrow>
                     (case execReg reg h1 (Import content) of
                        (Inl msg, h2) \<Rightarrow> (RollbackUndefined, h2)
                      | (Inr out, h2) \<Rightarrow> (RollbackTrue, h2)))))"

text \<open>
  What follows the write in \<open>set\<close> and in \<open>unset\<close>, \<open>intended\<close> being \<open>value\<close> for \<open>set\<close>
  and \<^verbatim>\<open>undefined\<close> for \<open>unset\<close>:
  \<^verbatim>\<open>verification = (await getRaw(name, { scope })) === intended;
  if (!verification && rollbackOnFail && doBackup && backupPath) { ... }
  previous = undefined;
  return { ok: verification, scope, name, previous, next: intended,
           verification, rollback, notes: [regPath] };\<close>
\<close>

definition win_verify ::
  "'r regtool \<Rightarrow> 'r host \<Rightarrow> string \<Rightarrow> options \<Rightarrow> string option \<Rightarrow> string option
     \<Rightarrow> (error + result) \<times> 'r host" where
  "win_verify reg h name opts backupPath intended =
     (case win_getRaw reg h name (scope opts) of
        (Inl e, h1) \<Rightarrow> (Inl e, h1)
      | (Inr got, h1) \<Rightarrow>
          (case (if got \<noteq> intended \<and> rollbackOnFail opts \<and> backup opts \<and> backupPath \<noteq> None
                 then win_rollback reg h1 (scope opts) (the backupPath)
                 else (RollbackUndefined, h1)) of
             (mark, h2) \<Rightarrow>
               (Inr \<lparr>ok = (got = intended), resScope = scope opts, resName = name,
                     previous = JSUndefined, nextValue = intended, verification = (got = intended),
                     rollback = mark, resNotes = [regPathOf (scope opts)]\<rparr>, h2)))"

text \<open>
  \<^verbatim>\<open>async function set(name, value, opts = {}) {
    const { scope, backup: doBackup = true, verify = true, rollbackOnFail = true } = opts || {};
    name = CASE_NORMALIZE(name);
    ...
    if (scope === "session") {
      previous = process.env[name];
      process.env[name] = value;
      return { ok: true, scope, name, previous, next: value, verification: true,
               rollback: null, notes: ["session only"] };
    }
    regPath = ...;
    // Backup registry export
    ...
    // Set value
    try {
      await execFileAsync("reg", ["add", regPath, "/v", name, "/d", value, "/f"]);
    } catch (e) {
      return { ok: false, scope, name, previous: undefined, next: value,
               verification: false, rollback: null, notes: [e.message] };
    }
    // Verify
    ...
  }\<close>
\<close>

definition win_set ::
  "'r regtool \<Rightarrow> 'r host \<Rightarrow> string \<Rightarrow> string \<Rightarrow> options \<Rightarrow> (error + result) \<times> 'r host" where
  "win_set reg h name value opts =
     (if scope opts = Session
      then (Inr \<lparr>ok = True, resScope = Session, resName = CASE_NORMALIZE name,
                 previous = strOrUndef (procEnv h (CASE_NORMALIZE name)), nextValue = Some value,
                 verification = True, rollback = RollbackNull, resNotes = [''session only'']\<rparr>,
            h\<lparr>procEnv := (procEnv h)(CASE_NORMALIZE name \<mapsto> value)\<rparr>)
      else (case win_backup reg h opts (CASE_NORMALIZE name) of
              (backupPath, h1) \<Rightarrow>
                (case execReg reg h1 (Add (regPathOf (scope opts)) (CASE_NORMALIZE name) value) of
                   (Inl msg, h2) \<Rightarrow>
                     (Inr \<lparr>ok = False, resScope = scope opts, resName = CASE_NORMALIZE name,
                           previous = JSUndefined, nextValue = Some value, verification = False,
                           rollback = RollbackNull, resNotes = [msg]\<rparr>, h2)
                 | (Inr out, h2) \<Rightarrow>
                     win_verify reg h2 (CASE_NORMALIZE name) opts backupPath (Some value))))"

text \<open>
  \<^verbatim>\<open>async function unset(name, opts = {})\<close> differs in the session branch
  (\<^verbatim>\<open>delete process.env[name]\<close>, \<^verbatim>\<open>next: undefined\<close>) and in the write:
  \<^verbatim>\<open>try {
    await execFileAsync("reg", ["delete", regPath, "/v", name, "/f"]);
  } catch (e) {
    return { ok: false, scope, name, previous: undefined, next: undefined,
             verification: false, rollback: null, notes: [e.message] };
  }\<close>
\<close>

definition win_unset ::
  "'r regtool \<Rightarrow> 'r host \<Rightarrow> string \<Rightarrow> options \<Rightarrow> (error + result) \<times> 'r host" where
  "win_unset reg h name opts =
     (if scope opts = Session
      then (Inr \<lparr>ok = True, resScope = Session, resName = CASE_NORMALIZE name,
                 previous = strOrUndef (procEnv h (CASE_NORMALIZE name)), nextValue = None,
                 verification = True, rollback = RollbackNull, resNotes = [''session only'']\<rparr>,
            h\<lparr>procEnv := (procEnv h)(CASE_NORMALIZE name := None)\<rparr>)
      else (case win_backup reg h opts (CASE_NORMALIZE name) of
              (backupPath, h1) \<Rightarrow>
                (case execReg reg h1 (Delete (regPathOf (scope opts)) (CASE_NORMALIZE name)) of
                   (Inl msg, h2) \<Rightarrow>
                     (Inr \<lparr>ok = False, resScope = scope opts, resName = CASE_NORMALIZE name,
                           previous = JSUndefined, nextValue = None, verification = False,
                           rollback = RollbackNull, resNotes = [msg]\<rparr>, h2)
                 | (Inr out, h2) \<Rightarrow>
                     win_verify reg h2 (CASE_NORMALIZE name) opts backupPath None)))"


section \<open>Auxiliary notions for the registry\<close>

section \<open>Sample hosts\<close>

text \<open>
  A host with nothing in it, for the concrete instances: no variable, no file, no backup
  directory, a registry without state, and no \<^verbatim>\<open>require\<close> in scope.
\<close>

definition emptyHost :: "unit host" where
  "emptyHost =
     \<lparr>procEnv = Map.empty, fsFiles = Map.empty, fsReadOnly = (\<lambda>p. False),
      homeDir = ''/home/u'', tmpDir = ''/tmp'', nowISO = ''2025-08-11T12:00:00.000Z'',
      nowMillis = ''1754913600000'', backupEntries = None, backupWritable = True,
      registry = (), regCalls = [], requireDefined = False\<rparr>"


text \<open>
  A registry that holds one list of values for every key, with a registry tool for it.
  \<open>listReg denied\<close> answers a query for a value that is there with a line in the layout
  of \<^verbatim>\<open>reg query\<close> and rejects a query for a value that is not there; it adds and deletes
  values, unless \<open>denied\<close> holds, in which case every change is rejected; it exports an
  empty file and accepts every import without effect.
\<close>

definition queryOutput :: "string \<Rightarrow> string \<Rightarrow> string \<Rightarrow> string" where
  "queryOutput regPath name value =
     [CHR 0x0D, CHR 0x0A] @ regPath @ [CHR 0x0D, CHR 0x0A]
       @ ''    '' @ name @ ''    REG_SZ    '' @ value @ [CHR 0x0D, CHR 0x0A, CHR 0x0D, CHR 0x0A]"

fun listReg :: "bool \<Rightarrow> (string \<times> string) list regtool" where
  "listReg denied r (Query regPath name) =
     (case map_of r name of
        None \<Rightarrow> (Inl ''ERROR: The system was unable to find the specified registry key or value.'', r)
      | Some value \<Rightarrow> (Inr (queryOutput regPath name value), r))"
| "listReg denied r (Add regPath name value) =
     (if denied then (Inl ''ERROR: Access is denied.'', r)
      else (Inr ''The operation completed successfully.'', AList.update name value r))"
| "listReg denied r (Delete regPath name) =
     (if denied then (Inl ''ERROR: Access is denied.'', r)
      else if map_of r name = None
      then (Inl ''ERROR: The system was unable to find the specified registry key or value.'', r)
      else (Inr ''The operation completed successfully.'', AList.delete name r))"
| "listReg denied r (Export regPath) = (Inr ''Windows Registry Editor Version 5.00'', r)"
| "listReg denied r (Import content) = (Inr ''The operation completed successfully.'', r)"

definition listHost :: "(string \<times> string) list \<Rightarrow> (string \<times> string) list host" where
  "listHost r =
     \<lparr>procEnv = Map.empty, fsFiles = Map.empty, fsReadOnly = (\<lambda>p. False),
      homeDir = ''C:/Users/u'', tmpDir = ''C:/Temp'', nowISO = ''2025-08-11T12:00:00.000Z'',
      nowMillis = ''1754913600000'', backupEntries = None, backupWritable = True,
      registry = r, regCalls = [], requireDefined = False\<rparr>"

text \<open>
  A POSIX host whose system file holds one variable, \<open>A='1'\<close>, and whose profile holds a
  managed block with the same variable.
\<close>

definition posixHost :: "unit host" where
  "posixHost =
     emptyHost\<lparr>fsFiles :=
       Map.empty(''/etc/environment'' \<mapsto> ''A='' @ [QUOTE] @ ''1'' @ [QUOTE],
                 ''/home/u/.profile'' \<mapsto>
                   ''# envm-begin'' @ [LF] @ ''export A='' @ [QUOTE] @ ''1'' @ [QUOTE] @ [LF]
                     @ ''# envm-end'' @ [LF])\<rparr>"

text \<open>An engine of \<^verbatim>\<open>RegExp\<close> that accepts every pattern and finds no match.\<close>

definition noMatch :: "string \<Rightarrow> (string \<Rightarrow> bool) option" where
  "noMatch src = Some (\<lambda>l. False)"

text \<open>The options with every default.\<close>

definition defaultsAt :: "scope \<Rightarrow> options" where
  "defaultsAt sc = \<lparr>scope = sc, backup = True, verify = True, rollbackOnFail = True\<rparr>"

section \<open>Reference expansion\<close>

lemma isWordChar_specials [simp]:
  "\<not> isWordChar (CHR ''$'')" "\<not> isWordChar (CHR ''{'')" "\<not> isWordChar (CHR ''}'')"
  "\<not> isWordChar (CHR ''%'')"
  by (simp_all add: isWordChar_def)

lemma takeWhile_word_stop:
  "\<not> isWordChar y \<Longrightarrow> takeWhile isWordChar (xs @ y # ys) = takeWhile isWordChar xs"
  by (induction xs) auto

lemma dropWhile_word_stop:
  "\<not> isWordChar y \<Longrightarrow> dropWhile isWordChar (xs @ y # ys) = dropWhile isWordChar xs @ y # ys"
  by (induction xs) auto

lemma posixRefAt_append_dollar:
  "posixRefAt (pre @ CHR ''$'' # rest) =
     (if pre = [] then posixRefAt (CHR ''$'' # rest)
      else map_option (\<lambda>(m, v, r). (m, v, r @ CHR ''$'' # rest)) (posixRefAt pre))"
proof (cases pre)
  case Nil
  then show ?thesis by simp
next
  case (Cons c cs)
  show ?thesis
  proof (cases cs)
    case Nil
    with Cons show ?thesis by (simp add: posixRefAt_def)
  next
    case (Cons b r)
    with \<open>pre = c # cs\<close> show ?thesis
      by (auto simp: posixRefAt_def takeWhile_word_stop dropWhile_word_stop hd_append)
  qed
qed

lemma posix_expand_append_dollar:
  "posix_expand penv name (pre @ CHR ''$'' # rest)
     = posix_expand penv name pre @ posix_expand penv name (CHR ''$'' # rest)"
proof (induction penv name pre rule: posix_expand.induct)
  case (1 penv name)
  then show ?case by simp
next
  case (2 penv name c cs)
  show ?case
  proof (cases "posixRefAt (c # cs)")
    case None
    then have "posixRefAt ((c # cs) @ CHR ''$'' # rest) = None"
      by (simp only: posixRefAt_append_dollar) simp
    with None 2 show ?thesis by simp
  next
    case (Some t)
    obtain m v r where t: "t = (m, v, r)" by (cases t)
    with Some have "posixRefAt ((c # cs) @ CHR ''$'' # rest) = Some (m, v, r @ CHR ''$'' # rest)"
      by (simp only: posixRefAt_append_dollar) simp
    with Some t 2 show ?thesis by simp
  qed
qed

lemma posix_expand_plain_ref:
  assumes "v \<noteq> []" "\<forall>c\<in>set v. isWordChar c" "post = [] \<or> \<not> isWordChar (hd post)"
  shows "posix_expand penv name (CHR ''$'' # v @ post)
           = posix_subst penv name (CHR ''$'' # v) v @ posix_expand penv name post"
proof -
  have "takeWhile isWordChar post = []" "dropWhile isWordChar post = post"
    using assms(3) by (simp_all add: takeWhile_eq_Nil_iff dropWhile_eq_self_iff)
  with assms(1,2) show ?thesis
    by (simp add: posixRefAt_def)
qed

lemma posix_expand_braced_ref:
  assumes "v \<noteq> []" "\<forall>c\<in>set v. isWordChar c"
  shows "posix_expand penv name (CHR ''$'' # CHR ''{'' # v @ CHR ''}'' # post)
           = posix_subst penv name (''${'' @ v @ ''}'') v @ posix_expand penv name post"
  using assms
  by (simp add: posixRefAt_def takeWhile_word_stop dropWhile_word_stop takeWhile_eq_all_conv[THEN iffD2])

lemma win_expand_ref:
  assumes "v \<noteq> []" "\<forall>c\<in>set v. isWordChar c"
  shows "win_expand penv name (CHR ''%'' # v @ CHR ''%'' # post)
           = win_subst penv name (CHR ''%'' # v @ ''%'') v @ win_expand penv name post"
  using assms
  by (simp add: winRefAt_def takeWhile_word_stop dropWhile_word_stop takeWhile_eq_all_conv[THEN iffD2])

lemma winRefAt_append_percent:
  "winRefAt (pre @ CHR ''%'' # rest) =
     (if pre = [] then winRefAt (CHR ''%'' # rest)
      else if hd pre = CHR ''%'' \<and> tl pre \<noteq> [] \<and> list_all isWordChar (tl pre)
      then Some (pre @ ''%'', tl pre, rest)
      else map_option (\<lambda>(m, v, r). (m, v, r @ CHR ''%'' # rest)) (winRefAt pre))"
proof (cases pre)
  case Nil
  then show ?thesis by simp
next
  case (Cons c cs)
  show ?thesis
  proof (cases "list_all isWordChar cs")
    case True
    then have "takeWhile isWordChar cs = cs" "dropWhile isWordChar cs = []"
      by (simp_all add: list_all_iff)
    with Cons True show ?thesis
      by (auto simp: winRefAt_def takeWhile_word_stop dropWhile_word_stop)
  next
    case False
    then have "dropWhile isWordChar cs \<noteq> []"
      by (simp add: list_all_iff)
    with Cons False show ?thesis
      by (auto simp: winRefAt_def takeWhile_word_stop dropWhile_word_stop hd_append)
  qed
qed

lemma win_expand_append_percent:
  "\<not> winOpenAtEnd pre \<Longrightarrow>
     win_expand penv name (pre @ CHR ''%'' # rest)
       = win_expand penv name pre @ win_expand penv name (CHR ''%'' # rest)"
proof (induction penv name pre rule: win_expand.induct)
  case (1 penv name)
  then show ?case by simp
next
  case (2 penv name c cs)
  show ?case
  proof (cases "winRefAt (c # cs)")
    case None
    with "2.prems" have no: "\<not> (c = CHR ''%'' \<and> cs \<noteq> [] \<and> list_all isWordChar cs)"
      and rec: "\<not> winOpenAtEnd cs"
      by simp_all
    from no None have "winRefAt ((c # cs) @ CHR ''%'' # rest) = None"
      by (simp only: winRefAt_append_percent) auto
    with None rec 2 show ?thesis by simp
  next
    case (Some t)
    obtain m v r where t: "t = (m, v, r)" by (cases t)
    from Some t have closed: "\<not> (c = CHR ''%'' \<and> cs \<noteq> [] \<and> list_all isWordChar cs)"
      by (auto simp: winRefAt_def list_all_iff split: if_splits)
    with Some t have "winRefAt ((c # cs) @ CHR ''%'' # rest) = Some (m, v, r @ CHR ''%'' # rest)"
      by (simp only: winRefAt_append_percent) auto
    moreover from "2.prems" Some t have "\<not> winOpenAtEnd r" by simp
    ultimately show ?thesis using Some t 2 by simp
  qed
qed


section \<open>Upper-casing\<close>






text \<open>
  No member of \<^verbatim>\<open>Object.prototype\<close> has an upper-cased name: each of the twelve names
  holds a small \<open>t\<close> or a small \<open>e\<close>, and no upper-cased string does. The Windows adapter
  upper-cases every name before it reads \<^verbatim>\<open>process.env\<close>, so its reads never reach
  \<^verbatim>\<open>Object.prototype\<close>.
\<close>

lemma upperStr_no_small:
  "CHR ''t'' \<notin> set (upperStr c)" "CHR ''e'' \<notin> set (upperStr c)"
  by (simp_all add: upperStr_def upperChar_def)

lemma toUpperCase_no_small:
  "CHR ''t'' \<notin> set (toUpperCase s)" "CHR ''e'' \<notin> set (toUpperCase s)"
  by (simp_all add: toUpperCase_def upperStr_no_small)

lemma member_has_small:
  "objectPrototype k = Some member \<Longrightarrow> CHR ''t'' \<in> set k \<or> CHR ''e'' \<in> set k"
  by (auto simp: objectPrototype_def split: if_splits)

lemma objectPrototype_upper: "objectPrototype (CASE_NORMALIZE name) = None"
proof (cases "objectPrototype (CASE_NORMALIZE name)")
  case None
  then show ?thesis .
next
  case (Some member)
  from member_has_small[OF Some] toUpperCase_no_small[of name]
  show ?thesis by (simp add: CASE_NORMALIZE_def)
qed

lemma envGet_upper: "envGet penv (CASE_NORMALIZE name) = strOrUndef (penv (CASE_NORMALIZE name))"
  by (simp add: envGet_def objectPrototype_upper split: option.split)
section \<open>Claims about getRaw and getExpanded\<close>

text \<open>
  C1 (the code at the failing input): on the POSIX adapter \<open>getRaw\<close> at user and at system
  scope raises \<^verbatim>\<open>Error("Not implemented: ...")\<close> for every name and every environment; it
  returns neither the stored string nor \<^verbatim>\<open>undefined\<close>.
\<close>

theorem posix_getRaw_user_system_raises:
  "posix_getRaw penv name User = Inl (Error ''Not implemented: getRaw user'')
   \<and> posix_getRaw penv name System = Inl (Error ''Not implemented: getRaw system'')"
  by simp

text \<open>
  C7 (the code at the failing input): on the Windows adapter, \<open>getExpanded\<close> called with the
  name \<open>foo\<close> reads the variable \<open>FOO\<close>, whose value \<open>a%FOO%\<close> refers to itself. The replacer
  compares the upper-cased reference with the name as passed, \<open>foo\<close>, so the self-reference
  is not recognised and is substituted from the live environment: the result is
  \<open>aa%FOO%\<close>, not the literal \<open>a%FOO%\<close>.
\<close>

theorem win_getExpanded_self_reference_substituted:
  "win_getExpanded reg (h\<lparr>procEnv := Map.empty(''FOO'' \<mapsto> ''a%FOO%'')\<rparr>) ''foo'' Session
     = (Inr (Some ''aa%FOO%''), h\<lparr>procEnv := Map.empty(''FOO'' \<mapsto> ''a%FOO%'')\<rparr>)"
  by (simp add: win_getExpanded_def win_getRaw_def CASE_NORMALIZE_def toUpperCase_def
      upperStr_def upperChar_def winRefAt_def win_subst_def isWordChar_def)

text \<open>
  A reference to a name \<open>v\<close> other than the variable's own name for which the lookup
  \<^verbatim>\<open>process.env[v]\<close> gives \<^verbatim>\<open>undefined\<close> or the empty string is replaced by the empty
  string: the text before and the text after the reference are expanded as they would be
  alone, and nothing stands between them. On POSIX the lookup gives \<^verbatim>\<open>undefined\<close> when no
  variable has the name and \<^verbatim>\<open>Object.prototype\<close> has no member of that name; the two
  reference forms are \<open>$v\<close> (the text after it not starting with a word character, which
  would belong to the name) and \<open>${v}\<close>. On Windows the reference is \<open>%v%\<close>, its opening
  \<open>%\<close> not closing an unfinished reference of the text before it, and the name looked up
  is the upper-cased \<open>v\<close>.
\<close>

lemma unresolved_reference_is_empty:
  assumes "v \<noteq> []" and "\<forall>c\<in>set v. isWordChar c"
  shows
    "(v \<noteq> name \<and> (penv v = None \<and> objectPrototype v = None \<or> penv v = Some [])
        \<and> (post = [] \<or> \<not> isWordChar (hd post))
        \<and> penv name = Some (pre @ ''$'' @ v @ post)
      \<longrightarrow> posix_getExpanded penv name Session
            = Inr (JSString (posix_expand penv name pre @ posix_expand penv name post)))
     \<and> (v \<noteq> name \<and> (penv v = None \<and> objectPrototype v = None \<or> penv v = Some [])
        \<and> penv name = Some (pre @ ''${'' @ v @ ''}'' @ post)
      \<longrightarrow> posix_getExpanded penv name Session
            = Inr (JSString (posix_expand penv name pre @ posix_expand penv name post)))
     \<and> (CASE_NORMALIZE v \<noteq> name
        \<and> (procEnv h' (CASE_NORMALIZE v) = None \<or> procEnv h' (CASE_NORMALIZE v) = Some [])
        \<and> \<not> winOpenAtEnd pre
        \<and> win_getRaw reg h name sc = (Inr (Some (pre @ ''%'' @ v @ ''%'' @ post)), h')
      \<longrightarrow> win_getExpanded reg h name sc
            = (Inr (Some (win_expand (procEnv h') name pre @ win_expand (procEnv h') name post)),
               h'))"
proof (intro conjI impI)
  assume h: "v \<noteq> name \<and> (penv v = None \<and> objectPrototype v = None \<or> penv v = Some [])
        \<and> (post = [] \<or> \<not> isWordChar (hd post))
        \<and> penv name = Some (pre @ ''$'' @ v @ post)"
  then have sub: "posix_subst penv name (CHR ''$'' # v) v = []"
    by (auto simp: posix_subst_def envGet_def)
  have "posix_expand penv name (pre @ CHR ''$'' # v @ post)
          = posix_expand penv name pre @ posix_expand penv name post"
    using h assms sub
    by (simp add: posix_expand_append_dollar posix_expand_plain_ref del: posix_expand.simps)
  with h show "posix_getExpanded penv name Session
            = Inr (JSString (posix_expand penv name pre @ posix_expand penv name post))"
    by (simp add: posix_getExpanded_def envGet_def)
next
  assume h: "v \<noteq> name \<and> (penv v = None \<and> objectPrototype v = None \<or> penv v = Some [])
        \<and> penv name = Some (pre @ ''${'' @ v @ ''}'' @ post)"
  then have sub: "posix_subst penv name (''${'' @ v @ ''}'') v = []"
    by (auto simp: posix_subst_def envGet_def)
  have "posix_expand penv name (pre @ CHR ''$'' # CHR ''{'' # v @ CHR ''}'' # post)
          = posix_expand penv name pre @ posix_expand penv name post"
    using assms sub
    by (simp add: posix_expand_append_dollar posix_expand_braced_ref del: posix_expand.simps)
  with h show "posix_getExpanded penv name Session
            = Inr (JSString (posix_expand penv name pre @ posix_expand penv name post))"
    by (simp add: posix_getExpanded_def envGet_def)
next
  assume w: "CASE_NORMALIZE v \<noteq> name
        \<and> (procEnv h' (CASE_NORMALIZE v) = None \<or> procEnv h' (CASE_NORMALIZE v) = Some [])
        \<and> \<not> winOpenAtEnd pre
        \<and> win_getRaw reg h name sc = (Inr (Some (pre @ ''%'' @ v @ ''%'' @ post)), h')"
  then have sub: "win_subst (procEnv h') name (CHR ''%'' # v @ ''%'') v = []"
    by (auto simp: win_subst_def)
  have "win_expand (procEnv h') name (pre @ CHR ''%'' # v @ CHR ''%'' # post)
          = win_expand (procEnv h') name pre @ win_expand (procEnv h') name post"
    using w assms sub
    by (simp add: win_expand_append_percent win_expand_ref del: win_expand.simps)
  with w show "win_getExpanded reg h name sc
            = (Inr (Some (win_expand (procEnv h') name pre @ win_expand (procEnv h') name post)),
               h')"
    by (simp add: win_getExpanded_def)
qed

text \<open>
  C10 (the code at the failing input): on the POSIX adapter the variable \<open>X\<close> holds
  \<open>a$toString/b\<close> and the environment has no variable \<open>toString\<close>. The reference is
  unresolved, but \<^verbatim>\<open>process.env[v] || ""\<close> finds the function \<^verbatim>\<open>toString\<close> that
  \<^verbatim>\<open>process.env\<close> inherits from \<^verbatim>\<open>Object.prototype\<close>, and \<^verbatim>\<open>replace\<close> puts the text of
  that function where the reference stood: the reference does not disappear.
\<close>

theorem posix_getExpanded_inherited_name_substituted:
  "posix_getExpanded (Map.empty(''X'' \<mapsto> ''a$toString/b'')) ''X'' Session
     = Inr (JSString ''afunction toString() { [native code] }/b'')"
  by (simp add: posix_getExpanded_def envGet_def objectPrototype_def posixRefAt_def
      posix_subst_def isWordChar_def)
section \<open>What purge deletes and what it keeps\<close>

lemma doomed_mono: "j \<le> i \<Longrightarrow> doomed dp lk now pol j f \<Longrightarrow> doomed dp lk now pol i f"
  by (auto simp: doomed_def)







lemma set_sortDesc [simp]: "set (sortDesc key xs) = set xs"
  by (simp add: sortDesc_def)

lemma distinct_sortDesc [simp]: "distinct (sortDesc key xs) = distinct xs"
  by (simp add: sortDesc_def)

lemma set_firstOccurrences [simp]: "set (firstOccurrences xs) = set xs"
  by (simp add: firstOccurrences_def)

lemma distinct_firstOccurrences [simp]: "distinct (firstOccurrences xs)"
  by (simp add: firstOccurrences_def)










section \<open>Claims about purge\<close>



text \<open>
  C2 (the code at the failing input): the backup \<open>user-PATH-2020-01-01T00-00-00-000Z.bak\<close>
  is the only file of the directory. Its time stamp matches the pattern, and the string
  handed to \<^verbatim>\<open>new Date\<close> is \<open>2020:01:01T00:00:.00Z\<close>: the hyphens of the date have
  become colons too, and the dot stands before the seconds. On every host whose \<open>Date\<close>
  rejects that string, \<open>purge\<close> with \<open>maxPerScope = 9999\<close> and \<open>maxAgeDays = 0\<close> deletes
  nothing, whatever the clock says.
\<close>

theorem purge_age_threshold_keeps_old_backup:
  assumes "dateParse ''2020:01:01T00:00:.00Z'' = None"
  shows "map_option dateString (dateMatch ''user-PATH-2020-01-01T00-00-00-000Z.bak'')
           = Some ''2020:01:01T00:00:.00Z''
         \<and> purge collKey dateParse locked now \<lparr>maxPerScope = 9999, maxAgeDays = 0\<rparr>
             (Some [''user-PATH-2020-01-01T00-00-00-000Z.bak''])
           = (Inr 0, Some [''user-PATH-2020-01-01T00-00-00-000Z.bak''])"
proof -
  have m: "dateMatch ''user-PATH-2020-01-01T00-00-00-000Z.bak'' = Some ''2020-01-01T00-00-00''"
    by (simp add: dateAt_def datePattern_def isDigit_def)
  have s: "dateString ''2020-01-01T00-00-00'' = ''2020:01:01T00:00:.00Z''"
    by (simp add: dateString_def isDigit_def)
  have old: "\<not> tooOld dateParse now \<lparr>maxPerScope = 9999, maxAgeDays = 0\<rparr>
               ''user-PATH-2020-01-01T00-00-00-000Z.bak''"
    by (simp only: tooOld_def m s assms option.case simp_thms)
  have k: "scopeKeys [''user-PATH-2020-01-01T00-00-00-000Z.bak''] = [''user'']"
    by (simp add: scopeKeys_def firstOccurrences_def scopeOf_def isArrayIndex_def isDigit_def)
  have g: "sortDesc collKey (scopeGroup [''user-PATH-2020-01-01T00-00-00-000Z.bak''] ''user'')
             = [''user-PATH-2020-01-01T00-00-00-000Z.bak'']"
    by (simp add: sortDesc_def scopeGroup_def scopeOf_def)
  have pg: "purgeGroup dateParse locked now \<lparr>maxPerScope = 9999, maxAgeDays = 0\<rparr> 0
              [''user-PATH-2020-01-01T00-00-00-000Z.bak'']
              ([''user-PATH-2020-01-01T00-00-00-000Z.bak''], 0)
            = ([''user-PATH-2020-01-01T00-00-00-000Z.bak''], 0)"
    using old by (simp del: dateMatch.simps)
  have ni: "\<not> list_ex inheritedScope [''user-PATH-2020-01-01T00-00-00-000Z.bak'']"
    by (simp add: inheritedScope_def scopeOf_def objectPrototype_def)
  have d: "map_option dateString (dateMatch ''user-PATH-2020-01-01T00-00-00-000Z.bak'')
             = Some ''2020:01:01T00:00:.00Z''"
    by (simp only: m s option.map)
  have p: "purge collKey dateParse locked now \<lparr>maxPerScope = 9999, maxAgeDays = 0\<rparr>
             (Some [''user-PATH-2020-01-01T00-00-00-000Z.bak''])
           = (Inr 0, Some [''user-PATH-2020-01-01T00-00-00-000Z.bak''])"
    by (simp only: purge_def k g pg ni option.case foldl.simps Let_def prod.case if_False)
  from d p show ?thesis by (rule conjI)
qed

theorem purge_age_threshold_keeps_old_backup_witness:
  "purge length (\<lambda>s. if s = ''2020-01-01T00:00:00.000Z'' then Some 1577836800000 else None)
       (\<lambda>f. False) 1798761600000 \<lparr>maxPerScope = 9999, maxAgeDays = 0\<rparr>
       (Some [''user-PATH-2020-01-01T00-00-00-000Z.bak''])
     = (Inr 0, Some [''user-PATH-2020-01-01T00-00-00-000Z.bak''])"
  using purge_age_threshold_keeps_old_backup[of
      "\<lambda>s. if s = ''2020-01-01T00:00:00.000Z'' then Some 1577836800000 else None"
      length "\<lambda>f. False" 1798761600000, THEN conjunct2]
  by simp



section \<open>Claims about set and unset\<close>

lemmas posix_mutation_defs =
  posix_set_def posix_unset_def posix_commit_def posix_backup_def createBackup_def
  writeFile_def posixFile_def readFileOrEmpty_def

text \<open>
  C3 (the code at the failing input): the \<open>verify\<close> option is read from the options and
  never used; \<open>set\<close> and \<open>unset\<close> of both adapters do the same whatever its value. With
  \<open>verify\<close> off, \<open>set\<close> of the value \<open>'' bar''\<close> at user scope on Windows still queries the
  registry after the write (the third call of the registry tool), compares what it reads,
  the trimmed \<open>''bar''\<close>, with the value, and reports \<open>ok\<close> false.
\<close>

theorem verify_option_is_ignored:
  "posix_set h name value (opts\<lparr>verify := b\<rparr>) = posix_set h name value opts
   \<and> posix_unset regExp h name (opts\<lparr>verify := b\<rparr>) = posix_unset regExp h name opts
   \<and> win_set reg g name value (opts\<lparr>verify := b\<rparr>) = win_set reg g name value opts
   \<and> win_unset reg g name (opts\<lparr>verify := b\<rparr>) = win_unset reg g name opts
   \<and> regCalls (snd (win_set (listReg False) (listHost []) ''FOO'' '' bar''
         ((defaultsAt User)\<lparr>verify := False\<rparr>)))
       = [Export (regPathOf User), Add (regPathOf User) ''FOO'' '' bar'',
          Query (regPathOf User) ''FOO'']
   \<and> map_sum id ok (fst (win_set (listReg False) (listHost []) ''FOO'' '' bar''
         ((defaultsAt User)\<lparr>verify := False\<rparr>)))
       = Inr False"
proof -
  have pc: "posix_commit h1 name (opts\<lparr>verify := b\<rparr>) path old new intended
              = posix_commit h1 name opts path old new intended" for h1 :: "'a host" and path old new intended
    by (simp add: posix_commit_def split: sum.split)
  have pb: "posix_backup h (opts\<lparr>verify := b\<rparr>) name old = posix_backup h opts name old" for old
    by (auto simp: posix_backup_def split: sum.split prod.split)
  have a: "posix_set h name value (opts\<lparr>verify := b\<rparr>) = posix_set h name value opts"
    by (simp add: posix_set_def pc pb Let_def split: sum.split)
  have b: "posix_unset regExp h name (opts\<lparr>verify := b\<rparr>) = posix_unset regExp h name opts"
    by (simp add: posix_unset_def pc pb Let_def split: sum.split)
  have wv: "win_verify reg g1 name1 (opts\<lparr>verify := b\<rparr>) bp intended
              = win_verify reg g1 name1 opts bp intended" for g1 :: "'b host" and name1 bp intended
    by (auto simp: win_verify_def split: sum.split prod.split)
  have wb: "win_backup reg g (opts\<lparr>verify := b\<rparr>) name1 = win_backup reg g opts name1" for name1
    by (auto simp: win_backup_def split: sum.split prod.split)
  have c: "win_set reg g name value (opts\<lparr>verify := b\<rparr>) = win_set reg g name value opts"
    by (simp add: win_set_def wv wb split: sum.split prod.split)
  have d: "win_unset reg g name (opts\<lparr>verify := b\<rparr>) = win_unset reg g name opts"
    by (simp add: win_unset_def wv wb split: sum.split prod.split)
  have e: "regCalls (snd (win_set (listReg False) (listHost []) ''FOO'' '' bar''
               ((defaultsAt User)\<lparr>verify := False\<rparr>)))
             = [Export (regPathOf User), Add (regPathOf User) ''FOO'' '' bar'',
                Query (regPathOf User) ''FOO'']"
    by code_simp
  have f: "map_sum id ok (fst (win_set (listReg False) (listHost []) ''FOO'' '' bar''
               ((defaultsAt User)\<lparr>verify := False\<rparr>)))
             = Inr False"
    by code_simp
  from a b c d e f show ?thesis by simp
qed

text \<open>
  C4 (the code at the failing input): on POSIX, \<open>set\<close> at user or system scope, with the
  target file writable and the backup (when asked for) written, always ends in the
  exception of \<open>getRaw\<close>: there is no result, no rollback, and the file holds the new
  content.
\<close>

theorem posix_set_writes_then_raises:
  assumes "scope opts \<noteq> Session" and "\<not> fsReadOnly h (posixFile h (scope opts))"
    and "backup opts \<longrightarrow> backupWritable h"
  shows "fst (posix_set h name value opts)
           = Inl (Error (''Not implemented: getRaw '' @ scopeName (scope opts)))
         \<and> fsFiles (snd (posix_set h name value opts)) (posixFile h (scope opts))
           = Some (if scope opts = User
                   then userSetContent (readFileOrEmpty h (posixFile h (scope opts))) name value
                   else systemSetContent (readFileOrEmpty h (posixFile h (scope opts))) name value)"
  using assms by (cases "scope opts") (simp_all add: posix_mutation_defs Let_def)

theorem posix_set_writes_then_raises_witness:
  "fst (posix_set posixHost ''FOO'' ''bar'' (defaultsAt System))
     = Inl (Error ''Not implemented: getRaw system'')
   \<and> fsFiles posixHost ''/etc/environment'' = Some (''A='' @ [QUOTE] @ ''1'' @ [QUOTE])
   \<and> fsFiles (snd (posix_set posixHost ''FOO'' ''bar'' (defaultsAt System))) ''/etc/environment''
     = Some (''A='' @ [QUOTE] @ ''1'' @ [QUOTE] @ [LF] @ ''FOO='' @ [QUOTE] @ ''bar'' @ [QUOTE])"
  using posix_set_writes_then_raises[of "defaultsAt System" posixHost "''FOO''" "''bar''"]
  by (simp add: defaultsAt_def posixHost_def emptyHost_def posixFile_def readFileOrEmpty_def
      systemSetContent_def systemLine_def jsSplit_def)

text \<open>
  C5 (the code at the failing input): on POSIX, when the target file cannot be written,
  \<open>set\<close> at user or system scope and \<open>unset\<close> at system scope end in the exception of
  \<^verbatim>\<open>fs.writeFile\<close>; no result is returned.
\<close>

theorem posix_write_failure_propagates:
  assumes "scope opts \<noteq> Session" and "fsReadOnly h (posixFile h (scope opts))"
    and "backup opts \<longrightarrow> backupWritable h"
  shows "fst (posix_set h name value opts) = Inl (IOError (posixFile h (scope opts)))
         \<and> (scope opts = System
              \<longrightarrow> fst (posix_unset regExp h name opts) = Inl (IOError (posixFile h (scope opts))))"
  using assms by (cases "scope opts") (simp_all add: posix_mutation_defs Let_def)

theorem posix_write_failure_propagates_witness:
  "fst (posix_set (posixHost\<lparr>fsReadOnly := (\<lambda>p. p = ''/etc/environment'')\<rparr>) ''FOO'' ''bar''
          (defaultsAt System))
     = Inl (IOError ''/etc/environment'')
   \<and> fst (posix_unset noMatch (posixHost\<lparr>fsReadOnly := (\<lambda>p. p = ''/etc/environment'')\<rparr>) ''A''
          (defaultsAt System))
     = Inl (IOError ''/etc/environment'')"
  using posix_write_failure_propagates[of "defaultsAt System"
      "posixHost\<lparr>fsReadOnly := (\<lambda>p. p = ''/etc/environment'')\<rparr>" "''FOO''" "''bar''" noMatch]
    posix_write_failure_propagates[of "defaultsAt System"
      "posixHost\<lparr>fsReadOnly := (\<lambda>p. p = ''/etc/environment'')\<rparr>" "''A''" "''bar''" noMatch]
  by (simp add: defaultsAt_def posixHost_def emptyHost_def posixFile_def)






text \<open>
  On the POSIX adapter at session scope, a name that \<^verbatim>\<open>Object.prototype\<close> has a member
  for reads as that member once the variable is gone.
\<close>

lemma posix_unset_inherited_name:
  "posix_getRaw (procEnv (snd (posix_unset regExp h ''toString'' (defaultsAt Session))))
       ''toString'' Session
     = Inr (JSFunction ''toString'')"
  by (simp add: posix_unset_def defaultsAt_def envGet_def objectPrototype_def)


section \<open>Round trip of split and join\<close>

lemma splitAux_no_delim: "d \<notin> set s \<Longrightarrow> splitAux [d] acc s = [rev acc @ s]"
  by (induction s arbitrary: acc) auto

lemma splitAux_at_delim:
  "d \<notin> set s \<Longrightarrow> splitAux [d] acc (s @ d # rest) = (rev acc @ s) # splitAux [d] [] rest"
  by (induction s arbitrary: acc) auto

lemma splitAux_jsJoin:
  "segs \<noteq> [] \<Longrightarrow> list_all (\<lambda>s. d \<notin> set s) segs \<Longrightarrow>
     splitAux [d] [] (jsJoin segs [d]) = segs"
proof (induction segs "[d]" rule: jsJoin.induct)
  case 1
  then show ?case by simp
next
  case (2 x)
  then show ?case by (simp add: splitAux_no_delim)
next
  case (3 x y ys)
  then show ?case
    using splitAux_at_delim[of d x "[]" "jsJoin (y # ys) [d]"] by simp
qed

lemma jsJoin_nonempty:
  "segs \<noteq> [] \<Longrightarrow> list_all (\<lambda>s. s \<noteq> []) segs \<Longrightarrow> jsJoin segs sep \<noteq> []"
  by (induction segs sep rule: jsJoin.induct) auto

text \<open>
  C8, as stated, fails: \<open>split\<close> trims every segment, so a segment with white space at
  an end does not come back. The segment \<open>'' a''\<close> is not empty and holds no \<open>:\<close>.
\<close>

theorem split_join_untrimmed_counterexample:
  "'' a'' \<noteq> [] \<and> CHR '':'' \<notin> set '' a'' \<and> split (join ['' a''] '':'') '':'' \<noteq> ['' a'']"
  by (simp add: split_def join_def jsSplit_def trim_def isSpace_def)

text \<open>
  C8, amended: for every segment sequence with no empty segment, no occurrence of the
  delimiter character in a segment, and no white space at either end of a segment (each
  segment is its own \<open>trim\<close>), \<open>split (join segments d) d\<close> is \<open>segments\<close>.
\<close>

theorem split_join_roundtrip:
  assumes "\<forall>s \<in> set segments. s \<noteq> [] \<and> d \<notin> set s \<and> trim s = s"
  shows "split (join segments [d]) [d] = segments"
proof (cases "segments = []")
  case True
  then show ?thesis by (simp add: split_def join_def)
next
  case False
  from assms have f: "filter (\<lambda>s. s \<noteq> []) segments = segments"
    by (simp add: filter_id_conv)
  from assms have ne: "list_all (\<lambda>s. s \<noteq> []) segments"
    and nd: "list_all (\<lambda>s. d \<notin> set s) segments"
    by (simp_all add: list_all_iff)
  have tr: "map trim segments = segments"
    using assms by (simp add: map_idI)
  show ?thesis
    using False jsJoin_nonempty[OF False ne] splitAux_jsJoin[OF False nd] tr
    by (simp add: split_def join_def f jsSplit_def)
qed

theorem split_join_roundtrip_witness:
  "split (join [''/usr/local/bin'', ''/opt/my tools''] '':'') '':''
     = [''/usr/local/bin'', ''/opt/my tools'']"
  using split_join_roundtrip[of "[''/usr/local/bin'', ''/opt/my tools'']" "CHR '':''"]
  by (simp add: trim_def isSpace_def)

end
